theory Spec2Isabelle
  imports Main "HOL-Library.Word"
begin

text \<open>
  A model of two source files of the Azure provider for Terraform: \<open>config.go\<close>, which
  builds the registry of authenticated service clients (\<open>ArmClient\<close>,
  \<open>withRequestLogging\<close>, \<open>getArmClient\<close>, the storage account helpers), and the
  MySQL server resource (its schema, \<open>create\<close>, \<open>read\<close>, \<open>update\<close>, \<open>delete\<close>
  and the two SKU conversions). The definitions come first, in the order of the source;
  the properties proved of them follow.
\<close>

section \<open>Go values: errors, panics, multiple results\<close>

text \<open>
  The provider is Go. A Go \<open>error\<close> is a value that is either \<open>nil\<close> or carries a
  message; the model keeps the origin of the message instead of rendering it: an error
  the SDK returned (\<open>SdkError\<close>), or one built by \<open>fmt.Errorf\<close> from a format string
  and its operands (\<open>Errorf\<close>), the operands kept in order so that one can see which
  names an error carries. A result \<open>(v, err)\<close> of a Go function is the pair
  \<open>(v, err)\<close> with \<open>err :: error option\<close>, \<open>None\<close> for \<open>nil\<close>. A run-time panic
  (nil dereference, index out of range, failed type assertion) is the left summand of
  \<open>panic + 'a\<close>. A pointer is an \<open>option\<close>. A Go \<open>int\<close> is a 64-bit word.
\<close>

datatype error = SdkError string | Errorf string "fmt_arg list"
and fmt_arg = ArgS string | ArgE error | ArgSs "string list" | ArgI "64 word" | ArgIs "64 word list"

datatype panic = NilDereference | IndexOutOfRange | TypeAssertion

fun bindP :: "panic + 'a \<Rightarrow> ('a \<Rightarrow> panic + 'b) \<Rightarrow> panic + 'b" where
  \<comment> \<open>run the rest of the function unless the first part panicked\<close>
  "bindP (Inl p) f = Inl p"
| "bindP (Inr x) f = f x"

definition StatusNotFound :: nat where
  \<comment> \<open>\<open>http.StatusNotFound\<close>\<close>
  "StatusNotFound = 404"

section \<open>Strings\<close>

text \<open>
  A Go string is a sequence of bytes, here a \<open>char list\<close>. \<open>ToUpper\<close> maps the
  twenty-six lower-case ASCII letters to upper case and leaves every other byte as it is,
  which is what \<open>strings.ToUpper\<close> does to ASCII text. \<open>asciiToLower\<close> is its
  counterpart; it serves in the examples, where the text is ASCII. Where a function of
  the provider depends on \<open>strings.ToLower\<close>, that function is a parameter.
\<close>

definition upperChar :: "char \<Rightarrow> char" where
  "upperChar c =
     (case map_of (zip ''abcdefghijklmnopqrstuvwxyz'' ''ABCDEFGHIJKLMNOPQRSTUVWXYZ'') c of
        Some u \<Rightarrow> u
      | None \<Rightarrow> c)"

definition lowerChar :: "char \<Rightarrow> char" where
  "lowerChar c =
     (case map_of (zip ''ABCDEFGHIJKLMNOPQRSTUVWXYZ'' ''abcdefghijklmnopqrstuvwxyz'') c of
        Some l \<Rightarrow> l
      | None \<Rightarrow> c)"

definition ToUpper :: "string \<Rightarrow> string" where
  "ToUpper s = map upperChar s"

definition asciiToLower :: "string \<Rightarrow> string" where
  "asciiToLower s = map lowerChar s"

section \<open>Request logging\<close>

text \<open>
  \<open>withRequestLogging\<close> decorates an \<open>autorest.Sender\<close>. A sender performs the HTTP
  exchange: in the model it takes the request and the state \<open>'w\<close> of everything outside
  the process, and returns the pair \<open>(resp, err)\<close> of Go, \<open>resp\<close> a pointer, with the
  new outside state. A sender does not modify the method or the URL of the request it is
  given (the contract of \<open>http.RoundTripper\<close>), so the URL logged after the exchange is
  that of the request sent. \<open>log.Printf\<close> appends a line (format string and operands) to
  the log.

  \<open>httputil.DumpRequestOut\<close> and \<open>httputil.DumpResponse\<close> belong to Go's standard
  library and are parameters. The provider calls them with \<open>body = true\<close>: they read the
  body of the request or response they are handed and put a reader back in its place, so
  the object that is sent on, or returned, afterwards is the one the dump left. Each
  therefore returns the dump, an error that is \<open>nil\<close> when the dump succeeded, and the
  request or response as it is after the call.
\<close>

record Request =
  req_Method :: string
  req_URL :: string
  req_Body :: string

record Response =
  resp_Status :: string
  resp_StatusCode :: nat
  resp_Body :: string

definition httpStatus :: "nat \<Rightarrow> string \<Rightarrow> Response" where
  "httpStatus code status = \<lparr> resp_Status = status, resp_StatusCode = code, resp_Body = '''' \<rparr>"

datatype LogLine = Printf string "string list"

type_synonym 'w Sender = "Request \<Rightarrow> 'w \<Rightarrow> (Response option \<times> error option) \<times> 'w"

record httputil =
  DumpRequestOut :: "Request \<Rightarrow> (string \<times> error option) \<times> Request"
  DumpResponse :: "Response \<Rightarrow> (string \<times> error option) \<times> Response"

definition withRequestLogging ::
  "httputil \<Rightarrow> 'w Sender \<Rightarrow> Request \<Rightarrow> LogLine list \<Rightarrow> 'w
     \<Rightarrow> (Response option \<times> error option) \<times> LogLine list \<times> 'w" where
  "withRequestLogging hu s r lg w =
     (let ((dump, derr), r1) = DumpRequestOut hu r;
          lg1 =
            (case derr of
               None \<Rightarrow> lg @ [Printf ''[DEBUG] AzureRM Request: \<newline>%s\<newline>'' [dump]]
             | Some e \<Rightarrow>
                 lg @ [Printf ''[DEBUG] AzureRM Request: %s to %s\<newline>'' [req_Method r1, req_URL r1]]);
          ((resp, err), w1) = s r1 w
      in case resp of
           Some rsp \<Rightarrow>
             (let ((dump, derr), rsp1) = DumpResponse hu rsp;
                  lg2 =
                    (case derr of
                       None \<Rightarrow>
                         lg1 @ [Printf ''[DEBUG] AzureRM Response for %s: \<newline>%s\<newline>''
                                  [req_URL r1, dump]]
                     | Some e \<Rightarrow>
                         lg1 @ [Printf ''[DEBUG] AzureRM Response: %s for %s\<newline>''
                                  [resp_Status rsp1, req_URL r1]])
              in ((Some rsp1, err), lg2, w1))
         | None \<Rightarrow>
             ((None, err),
              lg1 @ [Printf ''[DEBUG] Request to %s completed with no response'' [req_URL r1]], w1))"

text \<open>
  Concrete senders and dump functions, for evaluating the decorator. \<open>dumpWorks\<close>
  gives the request and the response back as it received them. \<open>dumpBreaks\<close> fails on
  both and leaves the bodies read: empty.
\<close>

definition dumpWorks :: httputil where
  "dumpWorks =
     \<lparr> DumpRequestOut = (\<lambda>r. ((req_Method r @ '' '' @ req_URL r @ '' HTTP/1.1'', None), r)),
       DumpResponse = (\<lambda>r. ((''HTTP/1.1 '' @ resp_Status r, None), r)) \<rparr>"

definition dumpBreaks :: httputil where
  "dumpBreaks =
     \<lparr> DumpRequestOut = (\<lambda>r. (('''', Some (SdkError ''read error'')), r\<lparr>req_Body := ''''\<rparr>)),
       DumpResponse = (\<lambda>r. (('''', Some (SdkError ''unexpected EOF'')), r\<lparr>resp_Body := ''''\<rparr>)) \<rparr>"

definition getServers :: Request where
  "getServers = \<lparr> req_Method = ''GET'', req_URL = ''https://management.azure.com/servers'', req_Body = '''' \<rparr>"

definition notFoundResponse :: Response where
  "notFoundResponse =
     \<lparr> resp_Status = ''404 Not Found'', resp_StatusCode = 404, resp_Body = ''ResourceNotFound'' \<rparr>"

definition sendGone :: "nat Sender" where
  "sendGone r w = ((Some notFoundResponse, Some (SdkError ''ResourceNotFound'')), Suc w)"

definition sendRefused :: "nat Sender" where
  "sendRefused r w = ((None, Some (SdkError ''connection refused'')), Suc w)"

section \<open>The client factory\<close>

subsection \<open>Credentials, environments and the SDK\<close>

text \<open>
  \<open>Config\<close> is the receiver of \<open>getArmClient\<close>, with the fields the function reads.
  \<open>azure_Environment\<close> is \<open>azure.Environment\<close> with the endpoints the provider reads.
\<close>

record Config =
  ClientID :: string
  ClientSecret :: string
  SubscriptionID :: string
  TenantID :: string
  Environment :: string

record azure_Environment =
  env_Name :: string
  ResourceManagerEndpoint :: string
  ActiveDirectoryEndpoint :: string
  GraphEndpoint :: string
  StorageEndpointSuffix :: string

text \<open>
  The libraries \<open>getArmClient\<close> calls are not part of the repository. What they
  compute is a parameter: the table of cloud environments of \<open>go-autorest\<close>, keyed by
  upper-case name; \<open>adal.NewOAuthConfig\<close>, which returns a pointer and an error;
  \<open>adal.NewServicePrincipalToken\<close>, which returns a token and an error;
  \<open>terraform.VersionString()\<close>; and the user agent the SDK's constructors give a new
  client. \<open>'oc\<close> is the OAuth configuration, \<open>'tok\<close> the service principal token.
\<close>

record ('oc, 'tok) Sdk =
  azure_environments :: "(string \<times> azure_Environment) list"
  adal_NewOAuthConfig :: "string \<Rightarrow> string \<Rightarrow> 'oc option \<times> error option"
  adal_NewServicePrincipalToken :: "'oc \<Rightarrow> string \<Rightarrow> string \<Rightarrow> string \<Rightarrow> 'tok \<times> error option"
  terraform_VersionString :: string
  autorest_DefaultUserAgent :: string

text \<open>
  \<open>azure.EnvironmentFromName\<close> upper-cases the name and looks it up in the table; a
  name the table does not have is an error that quotes the upper-cased name.
\<close>

definition EnvironmentFromName ::
  "('oc, 'tok) Sdk \<Rightarrow> string \<Rightarrow> error + azure_Environment" where
  "EnvironmentFromName sdk name =
     (case map_of (azure_environments sdk) (ToUpper name) of
        Some env \<Rightarrow> Inr env
      | None \<Rightarrow>
          Inl (Errorf ''autorest/azure: There is no cloud environment matching the name %q''
                 [ArgS (ToUpper name)]))"

subsection \<open>Service client handles\<close>

text \<open>
  An authorizer is \<open>nil\<close> (\<open>NullAuthorizer\<close>), a bearer authorizer around a token, or
  the callback authorizer of the key vault, which holds a sender and the function that
  exchanges a token for the resource it is asked about. A sender is \<open>nil\<close> or
  \<open>autorest.CreateSender\<close> applied to decorators; the provider has the one decorator.
\<close>

datatype SendDecorator = WithRequestLogging

datatype SenderConfig = NoSender | CreateSender "SendDecorator list"

datatype 'tok Authorizer =
    NullAuthorizer
  | BearerAuthorizer 'tok
  | BearerAuthorizerCallback SenderConfig "string \<Rightarrow> string \<Rightarrow> 'tok Authorizer option \<times> error option"

text \<open>
  A service client of the SDK, as the provider configures it: the SDK type of the client,
  the base URI and the subscription or tenant its constructor received, and the
  \<open>UserAgent\<close>, \<open>Authorizer\<close> and \<open>Sender\<close> of the embedded \<open>autorest.Client\<close>.
\<close>

record 'tok Client =
  client_Kind :: string
  client_BaseURI :: string
  client_SubscriptionID :: string
  client_TenantID :: string
  UserAgent :: string
  Authorizer :: "'tok Authorizer"
  Sender :: SenderConfig

text \<open>
  The constructors of the SDK: \<open>New<X>ClientWithBaseURI(baseURI, subscriptionID)\<close>
  (\<open>subscriptions.NewGroupClientWithBaseURI\<close> takes the base URI only),
  \<open>graphrbac.NewServicePrincipalsClientWithBaseURI(baseURI, tenantID)\<close> and
  \<open>keyVault.New()\<close>. A new client has the SDK's user agent, no authorizer and no
  sender. \<open>zeroClient\<close> is the zero value of a client type.
\<close>

definition NewClientWithBaseURI :: "('oc, 'tok) Sdk \<Rightarrow> string \<Rightarrow> string \<Rightarrow> string \<Rightarrow> 'tok Client" where
  "NewClientWithBaseURI sdk kind baseURI subscriptionID =
     \<lparr> client_Kind = kind, client_BaseURI = baseURI, client_SubscriptionID = subscriptionID,
       client_TenantID = '''', UserAgent = autorest_DefaultUserAgent sdk,
       Authorizer = NullAuthorizer, Sender = NoSender \<rparr>"

definition NewTenantClientWithBaseURI :: "('oc, 'tok) Sdk \<Rightarrow> string \<Rightarrow> string \<Rightarrow> string \<Rightarrow> 'tok Client" where
  "NewTenantClientWithBaseURI sdk kind baseURI tenantID =
     \<lparr> client_Kind = kind, client_BaseURI = baseURI, client_SubscriptionID = '''',
       client_TenantID = tenantID, UserAgent = autorest_DefaultUserAgent sdk,
       Authorizer = NullAuthorizer, Sender = NoSender \<rparr>"

definition NewClient :: "('oc, 'tok) Sdk \<Rightarrow> string \<Rightarrow> 'tok Client" where
  "NewClient sdk kind =
     \<lparr> client_Kind = kind, client_BaseURI = '''', client_SubscriptionID = '''',
       client_TenantID = '''', UserAgent = autorest_DefaultUserAgent sdk,
       Authorizer = NullAuthorizer, Sender = NoSender \<rparr>"

definition zeroClient :: "string \<Rightarrow> 'tok Client" where
  "zeroClient kind =
     \<lparr> client_Kind = kind, client_BaseURI = '''', client_SubscriptionID = '''',
       client_TenantID = '''', UserAgent = '''', Authorizer = NullAuthorizer, Sender = NoSender \<rparr>"

definition setUserAgent :: "('oc, 'tok) Sdk \<Rightarrow> 'tok Client \<Rightarrow> 'tok Client" where
  "setUserAgent sdk client =
     (let version = terraform_VersionString sdk
      in client\<lparr>UserAgent := ''HashiCorp-Terraform-v'' @ version\<rparr>)"

subsection \<open>The registry\<close>

text \<open>
  \<open>ArmClient\<close> is a struct of four plain fields, a context and one field per service
  client. The client fields are kept by name: \<open>ArmClient_fields\<close> lists the fields the
  struct declares with their types, in the order of the declaration, and \<open>clients\<close>
  maps a field name to the client the field holds. A name the struct does not declare
  has no client.
\<close>

definition ArmClient_fields :: "(string \<times> string) list" where
  "ArmClient_fields =
     [(''availSetClient'', ''compute.AvailabilitySetsClient''),
      (''usageOpsClient'', ''compute.UsageClient''),
      (''vmExtensionImageClient'', ''compute.VirtualMachineExtensionImagesClient''),
      (''vmExtensionClient'', ''compute.VirtualMachineExtensionsClient''),
      (''vmScaleSetClient'', ''compute.VirtualMachineScaleSetsClient''),
      (''vmImageClient'', ''compute.VirtualMachineImagesClient''),
      (''vmClient'', ''compute.VirtualMachinesClient''),
      (''imageClient'', ''compute.ImagesClient''),
      (''diskClient'', ''disk.DisksClient''),
      (''cosmosDBClient'', ''cosmosdb.DatabaseAccountsClient''),
      (''appGatewayClient'', ''network.ApplicationGatewaysClient''),
      (''ifaceClient'', ''network.InterfacesClient''),
      (''expressRouteCircuitClient'', ''network.ExpressRouteCircuitsClient''),
      (''loadBalancerClient'', ''network.LoadBalancersClient''),
      (''localNetConnClient'', ''network.LocalNetworkGatewaysClient''),
      (''publicIPClient'', ''network.PublicIPAddressesClient''),
      (''secGroupClient'', ''network.SecurityGroupsClient''),
      (''secRuleClient'', ''network.SecurityRulesClient''),
      (''subnetClient'', ''network.SubnetsClient''),
      (''netUsageClient'', ''network.UsagesClient''),
      (''vnetGatewayConnectionsClient'', ''network.VirtualNetworkGatewayConnectionsClient''),
      (''vnetGatewayClient'', ''network.VirtualNetworkGatewaysClient''),
      (''vnetClient'', ''network.VirtualNetworksClient''),
      (''vnetPeeringsClient'', ''network.VirtualNetworkPeeringsClient''),
      (''routeTablesClient'', ''network.RouteTablesClient''),
      (''routesClient'', ''network.RoutesClient''),
      (''dnsClient'', ''dns.RecordSetsClient''),
      (''zonesClient'', ''dns.ZonesClient''),
      (''cdnProfilesClient'', ''cdn.ProfilesClient''),
      (''cdnEndpointsClient'', ''cdn.EndpointsClient''),
      (''containerRegistryClient'', ''containerregistry.RegistriesClient''),
      (''containerServicesClient'', ''containerservice.ContainerServicesClient''),
      (''eventGridTopicsClient'', ''eventgrid.TopicsClient''),
      (''eventHubClient'', ''eventhub.EventHubsClient''),
      (''eventHubConsumerGroupClient'', ''eventhub.ConsumerGroupsClient''),
      (''eventHubNamespacesClient'', ''eventhub.NamespacesClient''),
      (''postgresqlConfigurationsClient'', ''postgresql.ConfigurationsClient''),
      (''postgresqlDatabasesClient'', ''postgresql.DatabasesClient''),
      (''postgresqlFirewallRulesClient'', ''postgresql.FirewallRulesClient''),
      (''postgresqlServersClient'', ''postgresql.ServersClient''),
      (''providers'', ''resources.ProvidersClient''),
      (''resourceGroupClient'', ''resources.GroupsClient''),
      (''tagsClient'', ''resources.TagsClient''),
      (''resourceFindClient'', ''resources.GroupClient''),
      (''subscriptionsGroupClient'', ''subscriptions.GroupClient''),
      (''jobsClient'', ''scheduler.JobsClient''),
      (''jobsCollectionsClient'', ''scheduler.JobCollectionsClient''),
      (''storageServiceClient'', ''storage.AccountsClient''),
      (''storageUsageClient'', ''storage.UsageClient''),
      (''deploymentsClient'', ''resources.DeploymentsClient''),
      (''redisClient'', ''redis.GroupClient''),
      (''trafficManagerProfilesClient'', ''trafficmanager.ProfilesClient''),
      (''trafficManagerEndpointsClient'', ''trafficmanager.EndpointsClient''),
      (''searchServicesClient'', ''search.ServicesClient''),
      (''serviceBusNamespacesClient'', ''servicebus.NamespacesClient''),
      (''serviceBusQueuesClient'', ''servicebus.QueuesClient''),
      (''serviceBusTopicsClient'', ''servicebus.TopicsClient''),
      (''serviceBusSubscriptionsClient'', ''servicebus.SubscriptionsClient''),
      (''keyVaultClient'', ''keyvault.VaultsClient''),
      (''keyVaultManagementClient'', ''keyVault.ManagementClient''),
      (''sqlDatabasesClient'', ''sql.DatabasesClient''),
      (''sqlElasticPoolsClient'', ''sql.ElasticPoolsClient''),
      (''sqlFirewallRulesClient'', ''sql.FirewallRulesClient''),
      (''sqlServersClient'', ''sql.ServersClient''),
      (''appServicePlansClient'', ''web.AppServicePlansClient''),
      (''appInsightsClient'', ''appinsights.ComponentsClient''),
      (''servicePrincipalsClient'', ''graphrbac.ServicePrincipalsClient''),
      (''appsClient'', ''web.AppsClient'')]"

record 'tok ArmClient =
  clientId :: string
  tenantId :: string
  subscriptionId :: string
  environment :: azure_Environment
  StopContext :: "unit option"
  clients :: "string \<rightharpoonup> 'tok Client"

definition zeroClients :: "string \<rightharpoonup> 'tok Client" where
  "zeroClients = map_of (map (\<lambda>(field, kind). (field, zeroClient kind)) ArmClient_fields)"

definition assign :: "'tok ArmClient \<Rightarrow> string \<times> 'tok Client \<Rightarrow> 'tok ArmClient" where
  \<comment> \<open>\<open>client.field = c\<close>\<close>
  "assign client fc = client\<lparr>clients := (clients client)(fst fc \<mapsto> snd fc)\<rparr>"

text \<open>
  The client declarations of \<open>getArmClient\<close>, in the order of the source. Each is a
  constructor call, \<open>setUserAgent\<close>, the assignment of the authorizer and of the sender,
  and the assignment to a field of the registry; an entry of the list is the field with
  the client assigned to it.
\<close>

definition getArmClient_declarations ::
  "('oc, 'tok) Sdk \<Rightarrow> Config \<Rightarrow> string \<Rightarrow> string \<Rightarrow> 'tok Authorizer \<Rightarrow> 'tok Authorizer
     \<Rightarrow> 'tok Authorizer \<Rightarrow> SenderConfig \<Rightarrow> (string \<times> 'tok Client) list" where
  "getArmClient_declarations sdk c endpoint graphEndpoint auth graphAuth keyVaultAuth sender =
     [(''availSetClient'',
          (setUserAgent sdk (NewClientWithBaseURI sdk ''compute.AvailabilitySetsClient'' endpoint (SubscriptionID c)))
            \<lparr>Authorizer := auth, Sender := CreateSender [WithRequestLogging]\<rparr>),
       (''usageOpsClient'',
          (setUserAgent sdk (NewClientWithBaseURI sdk ''compute.UsageClient'' endpoint (SubscriptionID c)))
            \<lparr>Authorizer := auth, Sender := CreateSender [WithRequestLogging]\<rparr>),
       (''vmExtensionImageClient'',
          (setUserAgent sdk (NewClientWithBaseURI sdk ''compute.VirtualMachineExtensionImagesClient'' endpoint (SubscriptionID c)))
            \<lparr>Authorizer := auth, Sender := CreateSender [WithRequestLogging]\<rparr>),
       (''vmExtensionClient'',
          (setUserAgent sdk (NewClientWithBaseURI sdk ''compute.VirtualMachineExtensionsClient'' endpoint (SubscriptionID c)))
            \<lparr>Authorizer := auth, Sender := CreateSender [WithRequestLogging]\<rparr>),
       (''vmImageClient'',
          (setUserAgent sdk (NewClientWithBaseURI sdk ''compute.VirtualMachineImagesClient'' endpoint (SubscriptionID c)))
            \<lparr>Authorizer := auth, Sender := CreateSender [WithRequestLogging]\<rparr>),
       (''vmScaleSetClient'',
          (setUserAgent sdk (NewClientWithBaseURI sdk ''compute.VirtualMachineScaleSetsClient'' endpoint (SubscriptionID c)))
            \<lparr>Authorizer := auth, Sender := CreateSender [WithRequestLogging]\<rparr>),
       (''vmClient'',
          (setUserAgent sdk (NewClientWithBaseURI sdk ''compute.VirtualMachinesClient'' endpoint (SubscriptionID c)))
            \<lparr>Authorizer := auth, Sender := CreateSender [WithRequestLogging]\<rparr>),
       (''appGatewayClient'',
          (setUserAgent sdk (NewClientWithBaseURI sdk ''network.ApplicationGatewaysClient'' endpoint (SubscriptionID c)))
            \<lparr>Authorizer := auth, Sender := CreateSender [WithRequestLogging]\<rparr>),
       (''containerRegistryClient'',
          (setUserAgent sdk (NewClientWithBaseURI sdk ''containerregistry.RegistriesClient'' endpoint (SubscriptionID c)))
            \<lparr>Authorizer := auth, Sender := CreateSender [WithRequestLogging]\<rparr>),
       (''containerServicesClient'',
          (setUserAgent sdk (NewClientWithBaseURI sdk ''containerservice.ContainerServicesClient'' endpoint (SubscriptionID c)))
            \<lparr>Authorizer := auth, Sender := CreateSender [WithRequestLogging]\<rparr>),
       (''cosmosDBClient'',
          (setUserAgent sdk (NewClientWithBaseURI sdk ''cosmosdb.DatabaseAccountsClient'' endpoint (SubscriptionID c)))
            \<lparr>Authorizer := auth, Sender := CreateSender [WithRequestLogging]\<rparr>),
       (''diskClient'',
          (setUserAgent sdk (NewClientWithBaseURI sdk ''disk.DisksClient'' endpoint (SubscriptionID c)))
            \<lparr>Authorizer := auth, Sender := CreateSender [WithRequestLogging]\<rparr>),
       (''imageClient'',
          (setUserAgent sdk (NewClientWithBaseURI sdk ''compute.ImagesClient'' endpoint (SubscriptionID c)))
            \<lparr>Authorizer := auth, Sender := CreateSender [WithRequestLogging]\<rparr>),
       (''eventGridTopicsClient'',
          (setUserAgent sdk (NewClientWithBaseURI sdk ''eventgrid.TopicsClient'' endpoint (SubscriptionID c)))
            \<lparr>Authorizer := auth, Sender := CreateSender [WithRequestLogging]\<rparr>),
       (''eventHubClient'',
          (setUserAgent sdk (NewClientWithBaseURI sdk ''eventhub.EventHubsClient'' endpoint (SubscriptionID c)))
            \<lparr>Authorizer := auth, Sender := CreateSender [WithRequestLogging]\<rparr>),
       (''eventHubConsumerGroupClient'',
          (setUserAgent sdk (NewClientWithBaseURI sdk ''eventhub.ConsumerGroupsClient'' endpoint (SubscriptionID c)))
            \<lparr>Authorizer := auth, Sender := CreateSender [WithRequestLogging]\<rparr>),
       (''eventHubNamespacesClient'',
          (setUserAgent sdk (NewClientWithBaseURI sdk ''eventhub.NamespacesClient'' endpoint (SubscriptionID c)))
            \<lparr>Authorizer := auth, Sender := CreateSender [WithRequestLogging]\<rparr>),
       (''ifaceClient'',
          (setUserAgent sdk (NewClientWithBaseURI sdk ''network.InterfacesClient'' endpoint (SubscriptionID c)))
            \<lparr>Authorizer := auth, Sender := CreateSender [WithRequestLogging]\<rparr>),
       (''expressRouteCircuitClient'',
          (setUserAgent sdk (NewClientWithBaseURI sdk ''network.ExpressRouteCircuitsClient'' endpoint (SubscriptionID c)))
            \<lparr>Authorizer := auth, Sender := CreateSender [WithRequestLogging]\<rparr>),
       (''loadBalancerClient'',
          (setUserAgent sdk (NewClientWithBaseURI sdk ''network.LoadBalancersClient'' endpoint (SubscriptionID c)))
            \<lparr>Authorizer := auth, Sender := CreateSender [WithRequestLogging]\<rparr>),
       (''localNetConnClient'',
          (setUserAgent sdk (NewClientWithBaseURI sdk ''network.LocalNetworkGatewaysClient'' endpoint (SubscriptionID c)))
            \<lparr>Authorizer := auth, Sender := CreateSender [WithRequestLogging]\<rparr>),
       (''publicIPClient'',
          (setUserAgent sdk (NewClientWithBaseURI sdk ''network.PublicIPAddressesClient'' endpoint (SubscriptionID c)))
            \<lparr>Authorizer := auth, Sender := CreateSender [WithRequestLogging]\<rparr>),
       (''secGroupClient'',
          (setUserAgent sdk (NewClientWithBaseURI sdk ''network.SecurityGroupsClient'' endpoint (SubscriptionID c)))
            \<lparr>Authorizer := auth, Sender := CreateSender [WithRequestLogging]\<rparr>),
       (''secRuleClient'',
          (setUserAgent sdk (NewClientWithBaseURI sdk ''network.SecurityRulesClient'' endpoint (SubscriptionID c)))
            \<lparr>Authorizer := auth, Sender := CreateSender [WithRequestLogging]\<rparr>),
       (''subnetClient'',
          (setUserAgent sdk (NewClientWithBaseURI sdk ''network.SubnetsClient'' endpoint (SubscriptionID c)))
            \<lparr>Authorizer := auth, Sender := CreateSender [WithRequestLogging]\<rparr>),
       (''vnetGatewayConnectionsClient'',
          (setUserAgent sdk (NewClientWithBaseURI sdk ''network.VirtualNetworkGatewayConnectionsClient'' endpoint (SubscriptionID c)))
            \<lparr>Authorizer := auth, Sender := CreateSender [WithRequestLogging]\<rparr>),
       (''vnetGatewayClient'',
          (setUserAgent sdk (NewClientWithBaseURI sdk ''network.VirtualNetworkGatewaysClient'' endpoint (SubscriptionID c)))
            \<lparr>Authorizer := auth, Sender := CreateSender [WithRequestLogging]\<rparr>),
       (''vnetClient'',
          (setUserAgent sdk (NewClientWithBaseURI sdk ''network.VirtualNetworksClient'' endpoint (SubscriptionID c)))
            \<lparr>Authorizer := auth, Sender := CreateSender [WithRequestLogging]\<rparr>),
       (''vnetPeeringsClient'',
          (setUserAgent sdk (NewClientWithBaseURI sdk ''network.VirtualNetworkPeeringsClient'' endpoint (SubscriptionID c)))
            \<lparr>Authorizer := auth, Sender := CreateSender [WithRequestLogging]\<rparr>),
       (''postgresqlConfigurationsClient'',
          (setUserAgent sdk (NewClientWithBaseURI sdk ''postgresql.ConfigurationsClient'' endpoint (SubscriptionID c)))
            \<lparr>Authorizer := auth, Sender := CreateSender [WithRequestLogging]\<rparr>),
       (''postgresqlDatabasesClient'',
          (setUserAgent sdk (NewClientWithBaseURI sdk ''postgresql.DatabasesClient'' endpoint (SubscriptionID c)))
            \<lparr>Authorizer := auth, Sender := CreateSender [WithRequestLogging]\<rparr>),
       (''postgresqlFirewallRulesClient'',
          (setUserAgent sdk (NewClientWithBaseURI sdk ''postgresql.FirewallRulesClient'' endpoint (SubscriptionID c)))
            \<lparr>Authorizer := auth, Sender := CreateSender [WithRequestLogging]\<rparr>),
       (''postgresqlServersClient'',
          (setUserAgent sdk (NewClientWithBaseURI sdk ''postgresql.ServersClient'' endpoint (SubscriptionID c)))
            \<lparr>Authorizer := auth, Sender := CreateSender [WithRequestLogging]\<rparr>),
       (''routeTablesClient'',
          (setUserAgent sdk (NewClientWithBaseURI sdk ''network.RouteTablesClient'' endpoint (SubscriptionID c)))
            \<lparr>Authorizer := auth, Sender := CreateSender [WithRequestLogging]\<rparr>),
       (''routesClient'',
          (setUserAgent sdk (NewClientWithBaseURI sdk ''network.RoutesClient'' endpoint (SubscriptionID c)))
            \<lparr>Authorizer := auth, Sender := CreateSender [WithRequestLogging]\<rparr>),
       (''dnsClient'',
          (setUserAgent sdk (NewClientWithBaseURI sdk ''dns.RecordSetsClient'' endpoint (SubscriptionID c)))
            \<lparr>Authorizer := auth, Sender := CreateSender [WithRequestLogging]\<rparr>),
       (''zonesClient'',
          (setUserAgent sdk (NewClientWithBaseURI sdk ''dns.ZonesClient'' endpoint (SubscriptionID c)))
            \<lparr>Authorizer := auth, Sender := CreateSender [WithRequestLogging]\<rparr>),
       (''resourceGroupClient'',
          (setUserAgent sdk (NewClientWithBaseURI sdk ''resources.GroupsClient'' endpoint (SubscriptionID c)))
            \<lparr>Authorizer := auth, Sender := CreateSender [WithRequestLogging]\<rparr>),
       (''providers'',
          (setUserAgent sdk (NewClientWithBaseURI sdk ''resources.ProvidersClient'' endpoint (SubscriptionID c)))
            \<lparr>Authorizer := auth, Sender := CreateSender [WithRequestLogging]\<rparr>),
       (''tagsClient'',
          (setUserAgent sdk (NewClientWithBaseURI sdk ''resources.TagsClient'' endpoint (SubscriptionID c)))
            \<lparr>Authorizer := auth, Sender := CreateSender [WithRequestLogging]\<rparr>),
       (''resourceFindClient'',
          (setUserAgent sdk (NewClientWithBaseURI sdk ''resources.GroupClient'' endpoint (SubscriptionID c)))
            \<lparr>Authorizer := auth, Sender := CreateSender [WithRequestLogging]\<rparr>),
       (''subscriptionsGroupClient'',
          (setUserAgent sdk (NewClientWithBaseURI sdk ''subscriptions.GroupClient'' endpoint ''''))
            \<lparr>Authorizer := auth, Sender := CreateSender [WithRequestLogging]\<rparr>),
       (''jobsClient'',
          (setUserAgent sdk (NewClientWithBaseURI sdk ''scheduler.JobsClient'' endpoint (SubscriptionID c)))
            \<lparr>Authorizer := auth, Sender := CreateSender [WithRequestLogging]\<rparr>),
       (''jobsCollectionsClient'',
          (setUserAgent sdk (NewClientWithBaseURI sdk ''scheduler.JobCollectionsClient'' endpoint (SubscriptionID c)))
            \<lparr>Authorizer := auth, Sender := CreateSender [WithRequestLogging]\<rparr>),
       (''storageServiceClient'',
          (setUserAgent sdk (NewClientWithBaseURI sdk ''storage.AccountsClient'' endpoint (SubscriptionID c)))
            \<lparr>Authorizer := auth, Sender := CreateSender [WithRequestLogging]\<rparr>),
       (''storageUsageClient'',
          (setUserAgent sdk (NewClientWithBaseURI sdk ''storage.UsageClient'' endpoint (SubscriptionID c)))
            \<lparr>Authorizer := auth, Sender := CreateSender [WithRequestLogging]\<rparr>),
       (''cdnProfilesClient'',
          (setUserAgent sdk (NewClientWithBaseURI sdk ''cdn.ProfilesClient'' endpoint (SubscriptionID c)))
            \<lparr>Authorizer := auth, Sender := CreateSender [WithRequestLogging]\<rparr>),
       (''cdnEndpointsClient'',
          (setUserAgent sdk (NewClientWithBaseURI sdk ''cdn.EndpointsClient'' endpoint (SubscriptionID c)))
            \<lparr>Authorizer := auth, Sender := CreateSender [WithRequestLogging]\<rparr>),
       (''deploymentsClient'',
          (setUserAgent sdk (NewClientWithBaseURI sdk ''resources.DeploymentsClient'' endpoint (SubscriptionID c)))
            \<lparr>Authorizer := auth, Sender := CreateSender [WithRequestLogging]\<rparr>),
       (''trafficManagerProfilesClient'',
          (setUserAgent sdk (NewClientWithBaseURI sdk ''trafficmanager.ProfilesClient'' endpoint (SubscriptionID c)))
            \<lparr>Authorizer := auth, Sender := CreateSender [WithRequestLogging]\<rparr>),
       (''trafficManagerEndpointsClient'',
          (setUserAgent sdk (NewClientWithBaseURI sdk ''trafficmanager.EndpointsClient'' endpoint (SubscriptionID c)))
            \<lparr>Authorizer := auth, Sender := CreateSender [WithRequestLogging]\<rparr>),
       (''redisClient'',
          (setUserAgent sdk (NewClientWithBaseURI sdk ''redis.GroupClient'' endpoint (SubscriptionID c)))
            \<lparr>Authorizer := auth, Sender := CreateSender [WithRequestLogging]\<rparr>),
       (''searchServicesClient'',
          (setUserAgent sdk (NewClientWithBaseURI sdk ''search.ServicesClient'' endpoint (SubscriptionID c)))
            \<lparr>Authorizer := auth, Sender := CreateSender [WithRequestLogging]\<rparr>),
       (''serviceBusNamespacesClient'',
          (setUserAgent sdk (NewClientWithBaseURI sdk ''servicebus.NamespacesClient'' endpoint (SubscriptionID c)))
            \<lparr>Authorizer := auth, Sender := CreateSender [WithRequestLogging]\<rparr>),
       (''serviceBusQueuesClient'',
          (setUserAgent sdk (NewClientWithBaseURI sdk ''servicebus.QueuesClient'' endpoint (SubscriptionID c)))
            \<lparr>Authorizer := auth, Sender := CreateSender [WithRequestLogging]\<rparr>),
       (''serviceBusTopicsClient'',
          (setUserAgent sdk (NewClientWithBaseURI sdk ''servicebus.TopicsClient'' endpoint (SubscriptionID c)))
            \<lparr>Authorizer := auth, Sender := CreateSender [WithRequestLogging]\<rparr>),
       (''serviceBusSubscriptionsClient'',
          (setUserAgent sdk (NewClientWithBaseURI sdk ''servicebus.SubscriptionsClient'' endpoint (SubscriptionID c)))
            \<lparr>Authorizer := auth, Sender := CreateSender [WithRequestLogging]\<rparr>),
       (''sqlDatabasesClient'',
          (setUserAgent sdk (NewClientWithBaseURI sdk ''sql.DatabasesClient'' endpoint (SubscriptionID c)))
            \<lparr>Authorizer := auth, Sender := CreateSender [WithRequestLogging]\<rparr>),
       (''sqlFirewallRulesClient'',
          (setUserAgent sdk (NewClientWithBaseURI sdk ''sql.FirewallRulesClient'' endpoint (SubscriptionID c)))
            \<lparr>Authorizer := auth, Sender := CreateSender [WithRequestLogging]\<rparr>),
       (''sqlElasticPoolsClient'',
          (setUserAgent sdk (NewClientWithBaseURI sdk ''sql.ElasticPoolsClient'' endpoint (SubscriptionID c)))
            \<lparr>Authorizer := auth, Sender := CreateSender [WithRequestLogging]\<rparr>),
       (''sqlServersClient'',
          (setUserAgent sdk (NewClientWithBaseURI sdk ''sql.ServersClient'' endpoint (SubscriptionID c)))
            \<lparr>Authorizer := auth, Sender := CreateSender [WithRequestLogging]\<rparr>),
       (''appServicePlansClient'',
          (setUserAgent sdk (NewClientWithBaseURI sdk ''web.AppServicePlansClient'' endpoint (SubscriptionID c)))
            \<lparr>Authorizer := auth, Sender := CreateSender [WithRequestLogging]\<rparr>),
       (''appInsightsClient'',
          (setUserAgent sdk (NewClientWithBaseURI sdk ''appinsights.ComponentsClient'' endpoint (SubscriptionID c)))
            \<lparr>Authorizer := auth, Sender := CreateSender [WithRequestLogging]\<rparr>),
       (''servicePrincipalsClient'',
          (setUserAgent sdk (NewTenantClientWithBaseURI sdk ''graphrbac.ServicePrincipalsClient'' graphEndpoint (TenantID c)))
            \<lparr>Authorizer := graphAuth, Sender := CreateSender [WithRequestLogging]\<rparr>),
       (''appsClient'',
          (setUserAgent sdk (NewClientWithBaseURI sdk ''web.AppsClient'' endpoint (SubscriptionID c)))
            \<lparr>Authorizer := auth, Sender := CreateSender [WithRequestLogging]\<rparr>),
       (''keyVaultClient'',
          (setUserAgent sdk (NewClientWithBaseURI sdk ''keyvault.VaultsClient'' endpoint (SubscriptionID c)))
            \<lparr>Authorizer := auth, Sender := CreateSender [WithRequestLogging]\<rparr>),
       (''keyVaultManagementClient'',
          (setUserAgent sdk (NewClient sdk ''keyVault.ManagementClient''))
            \<lparr>Authorizer := keyVaultAuth, Sender := sender\<rparr>)]"

text \<open>
  What it means for the client assigned to a field to be configured: the user agent is
  \<open>HashiCorp-Terraform-v\<close> followed by the version; the client of the directory
  (\<open>servicePrincipalsClient\<close>) has the graph endpoint, the tenant, the graph authorizer
  and a logging sender; the data-plane client of the key vault
  (\<open>keyVaultManagementClient\<close>) has the key vault authorizer and the shared logging
  sender; every other client has the management endpoint, the management authorizer and
  a logging sender.
\<close>

definition configured ::
  "('oc, 'tok) Sdk \<Rightarrow> Config \<Rightarrow> string \<Rightarrow> string \<Rightarrow> 'tok Authorizer \<Rightarrow> 'tok Authorizer
     \<Rightarrow> 'tok Authorizer \<Rightarrow> SenderConfig \<Rightarrow> string \<times> 'tok Client \<Rightarrow> bool" where
  "configured sdk c endpoint graphEndpoint auth graphAuth keyVaultAuth sender fh =
     (case fh of (f, h) \<Rightarrow>
        UserAgent h = ''HashiCorp-Terraform-v'' @ terraform_VersionString sdk
      \<and> (if f = ''servicePrincipalsClient''
          then client_BaseURI h = graphEndpoint \<and> client_TenantID h = TenantID c
             \<and> Authorizer h = graphAuth \<and> Sender h = CreateSender [WithRequestLogging]
          else if f = ''keyVaultManagementClient''
          then Authorizer h = keyVaultAuth \<and> Sender h = sender
          else client_BaseURI h = endpoint \<and> Authorizer h = auth
             \<and> Sender h = CreateSender [WithRequestLogging]))"

text \<open>
  \<open>getArmClient_withEnvironment\<close> is \<open>getArmClient\<close> from the declaration of
  \<open>client\<close> on, once the environment is known; \<open>getArmClient\<close> starts with the
  detection of the environment. The result is Go's pair of a pointer and an error.
\<close>

definition getArmClient_withEnvironment ::
  "('oc, 'tok) Sdk \<Rightarrow> Config \<Rightarrow> azure_Environment \<Rightarrow> 'tok ArmClient option \<times> error option" where
  "getArmClient_withEnvironment sdk c env =
     (let client = \<lparr> clientId = ClientID c, tenantId = TenantID c, subscriptionId = SubscriptionID c,
                      environment = env, StopContext = None, clients = zeroClients \<rparr>;
          (oauthConfig, err) = adal_NewOAuthConfig sdk (ActiveDirectoryEndpoint env) (TenantID c)
      in case err of
           Some e \<Rightarrow> (None, Some e)
         | None \<Rightarrow>
             (case oauthConfig of
                None \<Rightarrow>
                  (None, Some (Errorf ''Unable to configure OAuthConfig for tenant %s'' [ArgS (TenantID c)]))
              | Some oc \<Rightarrow>
                  (let endpoint = ResourceManagerEndpoint env;
                       (spt, err) = adal_NewServicePrincipalToken sdk oc (ClientID c) (ClientSecret c) endpoint
                   in case err of
                        Some e \<Rightarrow> (None, Some e)
                      | None \<Rightarrow>
                          (let auth = BearerAuthorizer spt;
                               graphEndpoint = GraphEndpoint env;
                               (graphSpt, err) =
                                 adal_NewServicePrincipalToken sdk oc (ClientID c) (ClientSecret c) graphEndpoint
                           in case err of
                                Some e \<Rightarrow> (None, Some e)
                              | None \<Rightarrow>
                                  (let graphAuth = BearerAuthorizer graphSpt;
                                       sender = CreateSender [WithRequestLogging];
                                       keyVaultAuth =
                                         BearerAuthorizerCallback sender
                                           (\<lambda>tenantID resource.
                                              case adal_NewServicePrincipalToken sdk oc (ClientID c)
                                                     (ClientSecret c) resource of
                                                (keyVaultSpt, Some e) \<Rightarrow> (None, Some e)
                                              | (keyVaultSpt, None) \<Rightarrow>
                                                  (Some (BearerAuthorizer keyVaultSpt), None))
                                   in (Some (foldl assign client
                                              (getArmClient_declarations sdk c endpoint graphEndpoint
                                                 auth graphAuth keyVaultAuth sender)),
                                       None))))))"

definition getArmClient :: "('oc, 'tok) Sdk \<Rightarrow> Config \<Rightarrow> 'tok ArmClient option \<times> error option" where
  "getArmClient sdk c =
     (case EnvironmentFromName sdk (Environment c) of
        Inr env \<Rightarrow> getArmClient_withEnvironment sdk c env
      | Inl envErr \<Rightarrow>
          (let wrapped = ''AZURE'' @ Environment c @ ''CLOUD''
           in case EnvironmentFromName sdk wrapped of
                Inl innerErr \<Rightarrow> (None, Some envErr)
              | Inr env \<Rightarrow> getArmClient_withEnvironment sdk c env))"

subsection \<open>Concrete builds\<close>

text \<open>Concrete credentials and SDK behaviours, for evaluating \<open>getArmClient\<close>.\<close>

definition publicCloud :: azure_Environment where
  "publicCloud =
     \<lparr> env_Name = ''AzurePublicCloud'',
       ResourceManagerEndpoint = ''https://management.azure.com/'',
       ActiveDirectoryEndpoint = ''https://login.microsoftonline.com/'',
       GraphEndpoint = ''https://graph.windows.net/'',
       StorageEndpointSuffix = ''core.windows.net'' \<rparr>"

definition germanCloud :: azure_Environment where
  "germanCloud =
     \<lparr> env_Name = ''AzureGermanCloud'',
       ResourceManagerEndpoint = ''https://management.microsoftazure.de/'',
       ActiveDirectoryEndpoint = ''https://login.microsoftonline.de/'',
       GraphEndpoint = ''https://graph.cloudapi.de/'',
       StorageEndpointSuffix = ''core.cloudapi.de'' \<rparr>"

definition sdkWorks :: "(string, string) Sdk" where
  "sdkWorks =
     \<lparr> azure_environments = [(''AZUREPUBLICCLOUD'', publicCloud), (''AZUREGERMANCLOUD'', germanCloud)],
       adal_NewOAuthConfig = (\<lambda>endpoint tenant. (Some (endpoint @ tenant), None)),
       adal_NewServicePrincipalToken = (\<lambda>oc clientID secret resource. (''token:'' @ resource, None)),
       terraform_VersionString = ''0.10.7'',
       autorest_DefaultUserAgent = ''Azure-SDK-For-Go'' \<rparr>"





definition credentials :: "string \<Rightarrow> Config" where
  "credentials env =
     \<lparr> ClientID = ''client-1'', ClientSecret = ''s3cret'', SubscriptionID = ''sub-1'',
       TenantID = ''tenant-1'', Environment = env \<rparr>"

section \<open>Storage account keys and the storage service clients\<close>

text \<open>
  \<open>storage.AccountListKeysResult\<close> as \<open>getKeyForStorageAccount\<close> reads it. The result
  embeds \<open>autorest.Response\<close>, which holds a pointer to the HTTP response:
  \<open>accountKeys.StatusCode\<close> goes through that pointer, and the pointer is nil when the
  call ended without a response (the request could not be prepared or sent). \<open>Keys\<close> is a
  pointer to the key list, and each key's \<open>Value\<close> a pointer to a string.
\<close>

record AccountKey =
  KeyName :: "string option"
  KeyValue :: "string option"

record AccountListKeysResult =
  ListKeys_Response :: "Response option"
  ListKeys_Keys :: "AccountKey list option"

text \<open>
  What the storage helpers reach through \<open>armClient\<close> and the storage SDK: the
  \<open>ListKeys\<close> call of \<open>armClient.storageServiceClient\<close>, the storage suffix of
  \<open>armClient.environment\<close>, and \<open>mainStorage.NewClient\<close> with its
  \<open>DefaultAPIVersion\<close>. The SDK is not part of the repository, so the calls are
  fields of a record the functions take; \<open>'sc\<close> is the SDK's storage client.
\<close>

record 'sc StorageAccess =
  storageServiceClient_ListKeys :: "string \<Rightarrow> string \<Rightarrow> AccountListKeysResult \<times> error option"
  environment_StorageEndpointSuffix :: string
  mainStorage_NewClient :: "string \<Rightarrow> string \<Rightarrow> string \<Rightarrow> string \<Rightarrow> bool \<Rightarrow> 'sc \<times> error option"
  mainStorage_DefaultAPIVersion :: string

definition getKeyForStorageAccount ::
  "'sc StorageAccess \<Rightarrow> string \<Rightarrow> string \<Rightarrow> panic + (string \<times> bool \<times> error option)" where
  "getKeyForStorageAccount armClient resourceGroupName storageAccountName =
     (let (accountKeys, err) = storageServiceClient_ListKeys armClient resourceGroupName storageAccountName
      in case ListKeys_Response accountKeys of
           None \<Rightarrow> Inl NilDereference
         | Some response \<Rightarrow>
             if resp_StatusCode response = StatusNotFound then Inr ('''', False, None)
             else case err of
               Some e \<Rightarrow>
                 Inr ('''', True,
                   Some (Errorf ''Error retrieving keys for storage account %q: %s''
                     [ArgS storageAccountName, ArgE e]))
             | None \<Rightarrow>
                 (case ListKeys_Keys accountKeys of
                    None \<Rightarrow>
                      Inr ('''', False,
                        Some (Errorf ''Nil key returned for storage account %q'' [ArgS storageAccountName]))
                  | Some keys \<Rightarrow>
                      (case keys of
                         [] \<Rightarrow> Inl IndexOutOfRange
                       | k # _ \<Rightarrow>
                           (case KeyValue k of
                              None \<Rightarrow> Inl NilDereference
                            | Some v \<Rightarrow> Inr (v, True, None)))))"

text \<open>
  The four helpers differ in the service they take from the storage client
  (\<open>GetBlobService\<close>, \<open>GetFileService\<close>, \<open>GetTableService\<close>, \<open>GetQueueService\<close>);
  the service clients wrap the storage client they come from.
\<close>

datatype 'sc BlobStorageClient = GetBlobService 'sc
datatype 'sc FileServiceClient = GetFileService 'sc
datatype 'sc TableServiceClient = GetTableService 'sc
datatype 'sc QueueServiceClient = GetQueueService 'sc

definition getBlobStorageClientForStorageAccount ::
  "'sc StorageAccess \<Rightarrow> string \<Rightarrow> string \<Rightarrow> panic + ('sc BlobStorageClient option \<times> bool \<times> error option)" where
  "getBlobStorageClientForStorageAccount armClient resourceGroupName storageAccountName =
     (case getKeyForStorageAccount armClient resourceGroupName storageAccountName of
        Inl p \<Rightarrow> Inl p
      | Inr (key, accountExists, err) \<Rightarrow>
          if err \<noteq> None then Inr (None, accountExists, err)
          else if accountExists = False then Inr (None, False, None)
          else
            (let (storageClient, err) =
                   mainStorage_NewClient armClient storageAccountName key
                     (environment_StorageEndpointSuffix armClient)
                     (mainStorage_DefaultAPIVersion armClient) True
             in case err of
                  Some e \<Rightarrow>
                    Inr (None, True,
                      Some (Errorf ''Error creating storage client for storage account %q: %s''
                        [ArgS storageAccountName, ArgE e]))
                | None \<Rightarrow> Inr (Some (GetBlobService storageClient), True, None)))"

definition getFileServiceClientForStorageAccount ::
  "'sc StorageAccess \<Rightarrow> string \<Rightarrow> string \<Rightarrow> panic + ('sc FileServiceClient option \<times> bool \<times> error option)" where
  "getFileServiceClientForStorageAccount armClient resourceGroupName storageAccountName =
     (case getKeyForStorageAccount armClient resourceGroupName storageAccountName of
        Inl p \<Rightarrow> Inl p
      | Inr (key, accountExists, err) \<Rightarrow>
          if err \<noteq> None then Inr (None, accountExists, err)
          else if accountExists = False then Inr (None, False, None)
          else
            (let (storageClient, err) =
                   mainStorage_NewClient armClient storageAccountName key
                     (environment_StorageEndpointSuffix armClient)
                     (mainStorage_DefaultAPIVersion armClient) True
             in case err of
                  Some e \<Rightarrow>
                    Inr (None, True,
                      Some (Errorf ''Error creating storage client for storage account %q: %s''
                        [ArgS storageAccountName, ArgE e]))
                | None \<Rightarrow> Inr (Some (GetFileService storageClient), True, None)))"

definition getTableServiceClientForStorageAccount ::
  "'sc StorageAccess \<Rightarrow> string \<Rightarrow> string \<Rightarrow> panic + ('sc TableServiceClient option \<times> bool \<times> error option)" where
  "getTableServiceClientForStorageAccount armClient resourceGroupName storageAccountName =
     (case getKeyForStorageAccount armClient resourceGroupName storageAccountName of
        Inl p \<Rightarrow> Inl p
      | Inr (key, accountExists, err) \<Rightarrow>
          if err \<noteq> None then Inr (None, accountExists, err)
          else if accountExists = False then Inr (None, False, None)
          else
            (let (storageClient, err) =
                   mainStorage_NewClient armClient storageAccountName key
                     (environment_StorageEndpointSuffix armClient)
                     (mainStorage_DefaultAPIVersion armClient) True
             in case err of
                  Some e \<Rightarrow>
                    Inr (None, True,
                      Some (Errorf ''Error creating storage client for storage account %q: %s''
                        [ArgS storageAccountName, ArgE e]))
                | None \<Rightarrow> Inr (Some (GetTableService storageClient), True, None)))"

definition getQueueServiceClientForStorageAccount ::
  "'sc StorageAccess \<Rightarrow> string \<Rightarrow> string \<Rightarrow> panic + ('sc QueueServiceClient option \<times> bool \<times> error option)" where
  "getQueueServiceClientForStorageAccount armClient resourceGroupName storageAccountName =
     (case getKeyForStorageAccount armClient resourceGroupName storageAccountName of
        Inl p \<Rightarrow> Inl p
      | Inr (key, accountExists, err) \<Rightarrow>
          if err \<noteq> None then Inr (None, accountExists, err)
          else if accountExists = False then Inr (None, False, None)
          else
            (let (storageClient, err) =
                   mainStorage_NewClient armClient storageAccountName key
                     (environment_StorageEndpointSuffix armClient)
                     (mainStorage_DefaultAPIVersion armClient) True
             in case err of
                  Some e \<Rightarrow>
                    Inr (None, True,
                      Some (Errorf ''Error creating storage client for storage account %q: %s''
                        [ArgS storageAccountName, ArgE e]))
                | None \<Rightarrow> Inr (Some (GetQueueService storageClient), True, None)))"

text \<open>Concrete storage accounts, for evaluating the helpers: one per outcome of \<open>ListKeys\<close>.\<close>

definition storageAccessOf :: "AccountListKeysResult \<times> error option \<Rightarrow> string StorageAccess" where
  "storageAccessOf r =
     \<lparr> storageServiceClient_ListKeys = (\<lambda>rg name. r),
       environment_StorageEndpointSuffix = ''core.windows.net'',
       mainStorage_NewClient = (\<lambda>name key suffix api https. (name @ ''.blob.'' @ suffix, None)),
       mainStorage_DefaultAPIVersion = ''2016-05-31'' \<rparr>"

definition keysGone :: "AccountListKeysResult \<times> error option" where
  "keysGone =
     (\<lparr>ListKeys_Response = Some (httpStatus 404 ''404 Not Found''), ListKeys_Keys = None\<rparr>,
      Some (SdkError ''ResourceNotFound''))"

definition keysThrottled :: "AccountListKeysResult \<times> error option" where
  "keysThrottled =
     (\<lparr>ListKeys_Response = Some (httpStatus 429 ''429 Too Many Requests''), ListKeys_Keys = None\<rparr>,
      Some (SdkError ''TooManyRequests''))"

definition keysUnreachable :: "AccountListKeysResult \<times> error option" where
  \<comment> \<open>the request was not answered: an error and no response\<close>
  "keysUnreachable =
     (\<lparr>ListKeys_Response = None, ListKeys_Keys = None\<rparr>, Some (SdkError ''connection refused''))"

definition keysNil :: "AccountListKeysResult \<times> error option" where
  "keysNil = (\<lparr>ListKeys_Response = Some (httpStatus 200 ''200 OK''), ListKeys_Keys = None\<rparr>, None)"

definition keysEmpty :: "AccountListKeysResult \<times> error option" where
  "keysEmpty = (\<lparr>ListKeys_Response = Some (httpStatus 200 ''200 OK''), ListKeys_Keys = Some []\<rparr>, None)"

definition keysTwo :: "AccountListKeysResult \<times> error option" where
  "keysTwo =
     (\<lparr>ListKeys_Response = Some (httpStatus 200 ''200 OK''),
       ListKeys_Keys = Some [\<lparr>KeyName = Some ''key1'', KeyValue = Some ''c2VjcmV0MQ==''\<rparr>,
                            \<lparr>KeyName = Some ''key2'', KeyValue = Some ''c2VjcmV0Mg==''\<rparr>]\<rparr>, None)"

section \<open>The MySQL server resource\<close>

subsection \<open>Declarative state\<close>

text \<open>
  The values of the host's \<open>schema.ResourceData\<close> are Go \<open>interface{}\<close> values: a
  string, an \<open>int\<close>, a list or set of values, a map from strings to values, or \<open>nil\<close>.
  \<open>ResourceData\<close> holds the identifier of the resource and its attributes by name.
  \<open>d.Get(k).(T)\<close> reads an attribute and asserts its type: an attribute that was never
  set, or was set from a nil pointer, reads as the zero value of \<open>T\<close>; one of another
  type fails the assertion. \<open>d.Set\<close> stores a value, \<open>d.SetId\<close> the identifier.
\<close>

datatype tf_value =
    VNil
  | VString string
  | VInt "64 word"
  | VList "tf_value list"
  | VMap "(string \<times> tf_value) list"

record ResourceData =
  d_Id :: string
  d_attrs :: "string \<rightharpoonup> tf_value"

definition d_SetId :: "ResourceData \<Rightarrow> string \<Rightarrow> ResourceData" where
  "d_SetId d v = d\<lparr>d_Id := v\<rparr>"

definition d_Set :: "ResourceData \<Rightarrow> string \<Rightarrow> tf_value \<Rightarrow> ResourceData" where
  "d_Set d k v = d\<lparr>d_attrs := (d_attrs d)(k \<mapsto> v)\<rparr>"

definition d_GetString :: "ResourceData \<Rightarrow> string \<Rightarrow> panic + string" where
  "d_GetString d k =
     (case d_attrs d k of
        None \<Rightarrow> Inr '''' | Some VNil \<Rightarrow> Inr '''' | Some (VString s) \<Rightarrow> Inr s
      | Some _ \<Rightarrow> Inl TypeAssertion)"

definition d_GetInt :: "ResourceData \<Rightarrow> string \<Rightarrow> panic + 64 word" where
  "d_GetInt d k =
     (case d_attrs d k of
        None \<Rightarrow> Inr 0 | Some VNil \<Rightarrow> Inr 0 | Some (VInt i) \<Rightarrow> Inr i
      | Some _ \<Rightarrow> Inl TypeAssertion)"

definition d_GetMap :: "ResourceData \<Rightarrow> string \<Rightarrow> panic + (string \<times> tf_value) list" where
  "d_GetMap d k =
     (case d_attrs d k of
        None \<Rightarrow> Inr [] | Some VNil \<Rightarrow> Inr [] | Some (VMap m) \<Rightarrow> Inr m
      | Some _ \<Rightarrow> Inl TypeAssertion)"

definition d_GetSetList :: "ResourceData \<Rightarrow> string \<Rightarrow> panic + tf_value list" where
  \<comment> \<open>\<open>d.Get(k).(*schema.Set).List()\<close>\<close>
  "d_GetSetList d k =
     (case d_attrs d k of
        None \<Rightarrow> Inr [] | Some VNil \<Rightarrow> Inr [] | Some (VList xs) \<Rightarrow> Inr xs
      | Some _ \<Rightarrow> Inl TypeAssertion)"

text \<open>
  Type assertions on a value taken from a Go map (\<open>sku["name"].(string)\<close>): a missing
  key gives \<open>nil\<close>, and \<open>nil\<close> fails the assertion.
\<close>

definition assertString :: "tf_value option \<Rightarrow> panic + string" where
  "assertString v = (case v of Some (VString s) \<Rightarrow> Inr s | _ \<Rightarrow> Inl TypeAssertion)"

definition assertInt :: "tf_value option \<Rightarrow> panic + 64 word" where
  "assertInt v = (case v of Some (VInt i) \<Rightarrow> Inr i | _ \<Rightarrow> Inl TypeAssertion)"

definition assertMap :: "tf_value \<Rightarrow> panic + (string \<times> tf_value) list" where
  "assertMap v = (case v of VMap m \<Rightarrow> Inr m | _ \<Rightarrow> Inl TypeAssertion)"

definition ptrString :: "string option \<Rightarrow> tf_value" where
  \<comment> \<open>a \<open>*string\<close> handed to \<open>d.Set\<close>\<close>
  "ptrString p = (case p of None \<Rightarrow> VNil | Some s \<Rightarrow> VString s)"

subsection \<open>Decimal numerals\<close>

function digitsOf :: "nat \<Rightarrow> string" where
  "digitsOf n =
     (if n < 10 then [''0123456789'' ! n]
      else digitsOf (n div 10) @ [''0123456789'' ! (n mod 10)])"
  by pat_completeness auto
termination
  by (relation "measure id") auto

declare digitsOf.simps [simp del]

definition Itoa :: "64 word \<Rightarrow> string" where
  \<comment> \<open>\<open>strconv.Itoa\<close> on a Go \<open>int\<close>\<close>
  "Itoa i = (if sint i < 0 then ''-'' @ digitsOf (nat (- sint i)) else digitsOf (nat (sint i)))"

subsection \<open>The wire model of the MySQL SDK\<close>

text \<open>
  The structs of the \<open>mysql\<close> package with the fields the provider sets or reads;
  pointer fields are options, the enumerations (\<open>SkuTier\<close>, \<open>ServerVersion\<close>,
  \<open>SslEnforcementEnum\<close>) are strings. In \<open>ServerPropertiesForCreate\<close> the two
  administrator fields are the ones the source names in its commented-out lines.
\<close>

type_synonym wire_tags = "(string \<times> string option) list option"

record mysql_Sku =
  sku_Name :: "string option"
  sku_Capacity :: "32 word option"
  sku_Tier :: string
  sku_Size :: "string option"

record ServerPropertiesForCreate =
  create_Version :: string
  create_StorageMB :: "64 word option"
  create_SslEnforcement :: string
  create_AdministratorLogin :: "string option"
  create_AdministratorLoginPassword :: "string option"

record ServerForCreate =
  create_Location :: "string option"
  create_Sku :: "mysql_Sku option"
  create_Properties :: "ServerPropertiesForCreate option"
  create_Tags :: wire_tags

record ServerUpdateParametersProperties =
  update_SslEnforcement :: string
  update_StorageMB :: "64 word option"
  update_Version :: string
  update_AdministratorLoginPassword :: "string option"

record ServerUpdateParameters =
  update_Sku :: "mysql_Sku option"
  update_Properties :: "ServerUpdateParametersProperties option"
  update_Tags :: wire_tags

text \<open>
  \<open>mysql.Server\<close> as \<open>client.Get\<close> returns it and the provider reads it. The result
  embeds \<open>autorest.Response\<close>, which holds a pointer to the HTTP response:
  \<open>resp.StatusCode\<close> goes through that pointer, and the pointer is nil when \<open>Get\<close> ended
  without a response (the request could not be prepared or sent). The other fields are
  the identifier and the properties of the server.
\<close>

record mysql_Server =
  server_Response :: "Response option"
  server_ID :: "string option"
  server_Name :: "string option"
  server_Location :: "string option"
  server_Sku :: "mysql_Sku option"
  server_Tags :: wire_tags
  server_AdministratorLogin :: "string option"
  server_Version :: string
  server_StorageMB :: "64 word option"
  server_SslEnforcement :: string
  server_FullyQualifiedDomainName :: "string option"

text \<open>
  The calls of \<open>mysql.ServersClient\<close>. Each acts on the remote service, whose state is
  \<open>'w\<close>, and returns the new state. \<open>CreateOrUpdate\<close>, \<open>Update\<close> and \<open>Delete\<close> are
  long-running: the SDK returns a channel of errors and the provider receives from it
  (\<open>err := <-error\<close>), which waits for the operation to end; the model returns the error
  received.
\<close>

record 'w ServersClient =
  CreateOrUpdate :: "string \<Rightarrow> string \<Rightarrow> ServerForCreate \<Rightarrow> 'w \<Rightarrow> error option \<times> 'w"
  Update :: "string \<Rightarrow> string \<Rightarrow> ServerUpdateParameters \<Rightarrow> 'w \<Rightarrow> error option \<times> 'w"
  Get :: "string \<Rightarrow> string \<Rightarrow> 'w \<Rightarrow> (mysql_Server \<times> error option) \<times> 'w"
  Delete :: "string \<Rightarrow> string \<Rightarrow> 'w \<Rightarrow> error option \<times> 'w"

subsection \<open>Functions of the provider defined in other files\<close>

text \<open>
  \<open>parseAzureResourceID\<close>, \<open>azureRMNormalizeLocation\<close>, \<open>expandTags\<close> and
  \<open>flattenAndSetTags\<close> are called by the resource and defined elsewhere in the
  provider; the resource functions take them as a record of parameters. Of a parsed
  identifier the resource reads the resource group and the path segments.
\<close>

record ResourceID =
  ResourceGroup :: string
  Path :: "string \<rightharpoonup> string"

record Helpers =
  parseAzureResourceID :: "string \<Rightarrow> error + ResourceID"
  azureRMNormalizeLocation :: "string \<Rightarrow> string"
  expandTags :: "(string \<times> tf_value) list \<Rightarrow> wire_tags"
  flattenAndSetTags :: "ResourceData \<Rightarrow> wire_tags \<Rightarrow> ResourceData"

definition pathSegment :: "ResourceID \<Rightarrow> string \<Rightarrow> string" where
  \<comment> \<open>\<open>id.Path[k]\<close>: a missing key of a Go map of strings reads as the empty string\<close>
  "pathSegment id' k = (case Path id' k of None \<Rightarrow> '''' | Some v \<Rightarrow> v)"

subsection \<open>SKU: declarative to wire and back\<close>

definition expandMySQLServerSku :: "ResourceData \<Rightarrow> 64 word \<Rightarrow> panic + mysql_Sku" where
  "expandMySQLServerSku d storageMB =
     bindP (d_GetSetList d ''sku'') (\<lambda>skus.
     bindP (case skus of [] \<Rightarrow> Inl IndexOutOfRange | s # _ \<Rightarrow> assertMap s) (\<lambda>sku.
     bindP (assertString (map_of sku ''name'')) (\<lambda>name.
     bindP (assertInt (map_of sku ''capacity'')) (\<lambda>capacity.
     bindP (assertString (map_of sku ''tier'')) (\<lambda>tier.
       Inr \<lparr> sku_Name = Some name,
             sku_Capacity = Some (ucast capacity :: 32 word),
             sku_Tier = tier,
             sku_Size = Some (Itoa storageMB) \<rparr>)))))"

definition flattenAndSetMySQLServerSku :: "ResourceData \<Rightarrow> mysql_Sku option \<Rightarrow> panic + ResourceData" where
  "flattenAndSetMySQLServerSku d resp =
     (case resp of
        None \<Rightarrow> Inl NilDereference
      | Some r \<Rightarrow>
          (case sku_Name r of
             None \<Rightarrow> Inl NilDereference
           | Some name \<Rightarrow>
               (case sku_Capacity r of
                  None \<Rightarrow> Inl NilDereference
                | Some capacity \<Rightarrow>
                    (let values = [(''name'', VString name),
                                   (''capacity'', VInt (scast capacity :: 64 word)),
                                   (''tier'', VString (sku_Tier r))];
                         sku = [VMap values]
                     in Inr (d_Set d ''sku'' (VList sku))))))"

subsection \<open>Read\<close>

definition resourceArmMySqlServerRead ::
  "Helpers \<Rightarrow> 'w ServersClient \<Rightarrow> ResourceData \<Rightarrow> 'w \<Rightarrow> panic + (error option \<times> ResourceData \<times> 'w)" where
  "resourceArmMySqlServerRead hp client d w =
     (case parseAzureResourceID hp (d_Id d) of
        Inl err \<Rightarrow> Inr (Some err, d, w)
      | Inr id' \<Rightarrow>
          (let resGroup = ResourceGroup id';
               name = pathSegment id' ''servers'';
               ((resp, err), w1) = Get client resGroup name w
           in case err of
                Some e \<Rightarrow>
                  (case server_Response resp of
                     None \<Rightarrow> Inl NilDereference
                   | Some response \<Rightarrow>
                       if resp_StatusCode response = StatusNotFound then Inr (None, d_SetId d '''', w1)
                       else Inr (Some (Errorf ''Error making Read request on Azure MySQL Server %s: %+v''
                                         [ArgS name, ArgE e]), d, w1))
              | None \<Rightarrow>
                  (let d1 = d_Set d ''name'' (ptrString (server_Name resp));
                       d2 = d_Set d1 ''resource_group_name'' (VString resGroup)
                   in case server_Location resp of
                        None \<Rightarrow> Inl NilDereference
                      | Some location \<Rightarrow>
                          (let d3 = d_Set d2 ''location'' (VString (azureRMNormalizeLocation hp location));
                               d4 = d_Set d3 ''administrator_login'' (ptrString (server_AdministratorLogin resp));
                               d5 = d_Set d4 ''version'' (VString (server_Version resp))
                           in case server_StorageMB resp of
                                None \<Rightarrow> Inl NilDereference
                              | Some storageMB \<Rightarrow>
                                  (let d6 = d_Set d5 ''storage_mb'' (VInt storageMB);
                                       d7 = d_Set d6 ''ssl_enforcement'' (VString (server_SslEnforcement resp))
                                   in bindP (flattenAndSetMySQLServerSku d7 (server_Sku resp)) (\<lambda>d8.
                                        (let d9 = flattenAndSetTags hp d8 (server_Tags resp);
                                             d10 = d_Set d9 ''fqdn''
                                                     (ptrString (server_FullyQualifiedDomainName resp))
                                         in Inr (None, d10, w1))))))))"

subsection \<open>Create\<close>

text \<open>
  \<open>resourceArmMySqlServerCreate_properties\<close> is the first part of
  \<open>resourceArmMySqlServerCreate\<close>: it reads the arguments and builds the payload, and
  returns the resource group, the name and the payload. The source leaves the
  administrator login and password out of the payload (the lines that read and set them
  are commented out under a TODO), so both are \<open>nil\<close>.
\<close>

definition resourceArmMySqlServerCreate_properties ::
  "Helpers \<Rightarrow> ResourceData \<Rightarrow> panic + (string \<times> string \<times> ServerForCreate)" where
  "resourceArmMySqlServerCreate_properties hp d =
     bindP (d_GetString d ''name'') (\<lambda>name.
     bindP (d_GetString d ''location'') (\<lambda>location.
     bindP (d_GetString d ''resource_group_name'') (\<lambda>resGroup.
     bindP (d_GetString d ''ssl_enforcement'') (\<lambda>sslEnforcement.
     bindP (d_GetString d ''version'') (\<lambda>version.
     bindP (d_GetInt d ''storage_mb'') (\<lambda>storageMB.
     bindP (d_GetMap d ''tags'') (\<lambda>tags.
     bindP (expandMySQLServerSku d storageMB) (\<lambda>sku.
       Inr (resGroup, name,
         \<lparr> create_Location = Some location,
           create_Sku = Some sku,
           create_Properties =
             Some \<lparr> create_Version = version,
                    create_StorageMB = Some storageMB,
                    create_SslEnforcement = sslEnforcement,
                    create_AdministratorLogin = None,
                    create_AdministratorLoginPassword = None \<rparr>,
           create_Tags = expandTags hp tags \<rparr>)))))))))"

definition resourceArmMySqlServerCreate ::
  "Helpers \<Rightarrow> 'w ServersClient \<Rightarrow> ResourceData \<Rightarrow> 'w \<Rightarrow> panic + (error option \<times> ResourceData \<times> 'w)" where
  "resourceArmMySqlServerCreate hp client d w =
     bindP (resourceArmMySqlServerCreate_properties hp d) (\<lambda>(resGroup, name, properties).
       (let (err, w1) = CreateOrUpdate client resGroup name properties w
        in case err of
             Some e \<Rightarrow> Inr (Some e, d, w1)
           | None \<Rightarrow>
               (let ((read, err), w2) = Get client resGroup name w1
                in case err of
                     Some e \<Rightarrow> Inr (Some e, d, w2)
                   | None \<Rightarrow>
                       (case server_ID read of
                          None \<Rightarrow>
                            Inr (Some (Errorf ''Cannot read MySQL Server %s (resource group %s) ID''
                                         [ArgS name, ArgS resGroup]), d, w2)
                        | Some id' \<Rightarrow> resourceArmMySqlServerRead hp client (d_SetId d id') w2))))"

subsection \<open>Update\<close>

definition resourceArmMySqlServerUpdate_properties ::
  "Helpers \<Rightarrow> ResourceData \<Rightarrow> panic + (string \<times> string \<times> ServerUpdateParameters)" where
  "resourceArmMySqlServerUpdate_properties hp d =
     bindP (d_GetString d ''name'') (\<lambda>name.
     bindP (d_GetString d ''resource_group_name'') (\<lambda>resGroup.
     bindP (d_GetString d ''administrator_login_password'') (\<lambda>adminLoginPassword.
     bindP (d_GetString d ''ssl_enforcement'') (\<lambda>sslEnforcement.
     bindP (d_GetString d ''version'') (\<lambda>version.
     bindP (d_GetInt d ''storage_mb'') (\<lambda>storageMB.
     bindP (expandMySQLServerSku d storageMB) (\<lambda>sku.
     bindP (d_GetMap d ''tags'') (\<lambda>tags.
       Inr (resGroup, name,
         \<lparr> update_Sku = Some sku,
           update_Properties =
             Some \<lparr> update_SslEnforcement = sslEnforcement,
                    update_StorageMB = Some storageMB,
                    update_Version = version,
                    update_AdministratorLoginPassword = Some adminLoginPassword \<rparr>,
           update_Tags = expandTags hp tags \<rparr>)))))))))"

definition resourceArmMySqlServerUpdate ::
  "Helpers \<Rightarrow> 'w ServersClient \<Rightarrow> ResourceData \<Rightarrow> 'w \<Rightarrow> panic + (error option \<times> ResourceData \<times> 'w)" where
  "resourceArmMySqlServerUpdate hp client d w =
     bindP (resourceArmMySqlServerUpdate_properties hp d) (\<lambda>(resGroup, name, properties).
       (let (err, w1) = Update client resGroup name properties w
        in case err of
             Some e \<Rightarrow> Inr (Some e, d, w1)
           | None \<Rightarrow>
               (let ((read, err), w2) = Get client resGroup name w1
                in case err of
                     Some e \<Rightarrow> Inr (Some e, d, w2)
                   | None \<Rightarrow>
                       (case server_ID read of
                          None \<Rightarrow>
                            Inr (Some (Errorf ''Cannot read MySQL Server %s (resource group %s) ID''
                                         [ArgS name, ArgS resGroup]), d, w2)
                        | Some id' \<Rightarrow> resourceArmMySqlServerRead hp client (d_SetId d id') w2))))"

subsection \<open>Delete\<close>

definition resourceArmMySqlServerDelete ::
  "Helpers \<Rightarrow> 'w ServersClient \<Rightarrow> ResourceData \<Rightarrow> 'w \<Rightarrow> error option \<times> ResourceData \<times> 'w" where
  "resourceArmMySqlServerDelete hp client d w =
     (case parseAzureResourceID hp (d_Id d) of
        Inl err \<Rightarrow> (Some err, d, w)
      | Inr id' \<Rightarrow>
          (let resGroup = ResourceGroup id';
               name = pathSegment id' ''servers'';
               (err, w1) = Delete client resGroup name w
           in (err, d, w1)))"

subsection \<open>The schema of the resource\<close>

text \<open>
  A field of the host's \<open>schema.Schema\<close> with the attributes the resource sets. A
  \<open>ValidateFunc\<close> receives the value and the key and returns warnings and errors; the
  host accepts the value when there are no errors. \<open>'f\<close> is the type of
  \<open>DiffSuppressFunc\<close>. \<open>Elem\<close> holds the fields of a nested resource.
\<close>

datatype ValueType = TypeInvalid | TypeString | TypeInt | TypeSet

type_synonym SchemaValidateFunc = "tf_value \<Rightarrow> string \<Rightarrow> string list \<times> error list"

record 'f SchemaField =
  Type :: ValueType
  Required :: bool
  Computed :: bool
  ForceNew :: bool
  Sensitive :: bool
  MaxItems :: nat
  ValidateFunc :: "SchemaValidateFunc option"
  DiffSuppressFunc :: "'f option"

record 'f Schema = "'f SchemaField" +
  Elem :: "(string \<times> 'f SchemaField) list"

definition schema :: "'f Schema" where
  \<comment> \<open>the zero value of \<open>schema.Schema\<close>, which a struct literal starts from\<close>
  "schema =
     \<lparr> Type = TypeInvalid, Required = False, Computed = False, ForceNew = False, Sensitive = False,
       MaxItems = 0, ValidateFunc = None, DiffSuppressFunc = None, Elem = [] \<rparr>"

definition field :: "'f SchemaField" where
  "field =
     \<lparr> Type = TypeInvalid, Required = False, Computed = False, ForceNew = False, Sensitive = False,
       MaxItems = 0, ValidateFunc = None, DiffSuppressFunc = None \<rparr>"

text \<open>
  \<open>validation.StringInSlice\<close> of the host's helper library: the value must be a string
  and equal one of the valid strings, or equal one of them after \<open>strings.ToLower\<close> on
  both when \<open>ignoreCase\<close> is set. \<open>strings.ToLower\<close> is Go's (it lower-cases letters of
  every script, not only ASCII) and is the first parameter.
\<close>

definition StringInSlice :: "(string \<Rightarrow> string) \<Rightarrow> string list \<Rightarrow> bool \<Rightarrow> SchemaValidateFunc" where
  "StringInSlice strings_ToLower valid ignoreCase i k =
     (case i of
        VString v \<Rightarrow>
          if list_ex (\<lambda>str. v = str \<or> (ignoreCase \<and> strings_ToLower v = strings_ToLower str)) valid
          then ([], [])
          else ([], [Errorf ''expected %s to be one of %v, got %s'' [ArgS k, ArgSs valid, ArgS v]])
      | _ \<Rightarrow> ([], [Errorf ''expected type of %s to be string'' [ArgS k]]))"

text \<open>
  Modelled from the spec: \<open>validateIntInSlice\<close>, a validator of the provider that is
  defined in another file. The spec has every capacity and size field validated against
  a fixed allow-list, and any value outside the allow-list rejected: the value must be an
  \<open>int\<close> and equal one of the valid numbers.
\<close>

definition validateIntInSlice :: "64 word list \<Rightarrow> SchemaValidateFunc" where
  "validateIntInSlice valid i k =
     (case i of
        VInt v \<Rightarrow>
          if list_ex (\<lambda>n. v = n) valid then ([], [])
          else ([], [Errorf ''expected %q to be one of %v, got %v'' [ArgS k, ArgIs valid, ArgI v]])
      | _ \<Rightarrow> ([], [Errorf ''expected type of %s to be int'' [ArgS k]]))"

text \<open>The enumeration constants of the \<open>mysql\<close> package that the schema names.\<close>

definition mysql_Basic :: string where "mysql_Basic = ''Basic''"
definition mysql_FiveFullStopSix :: string where "mysql_FiveFullStopSix = ''5.6''"
definition mysql_FiveFullStopSeven :: string where "mysql_FiveFullStopSeven = ''5.7''"
definition mysql_SslEnforcementEnumDisabled :: string where "mysql_SslEnforcementEnumDisabled = ''Disabled''"
definition mysql_SslEnforcementEnumEnabled :: string where "mysql_SslEnforcementEnumEnabled = ''Enabled''"

text \<open>
  The \<open>Schema\<close> map of \<open>resourceArmMySqlServer\<close>; its \<open>Create\<close>, \<open>Read\<close>, \<open>Update\<close>
  and \<open>Delete\<close> are the functions above. \<open>locationSchema()\<close>, \<open>tagsSchema()\<close> and
  \<open>ignoreCaseDiffSuppressFunc\<close> are defined in other files of the provider and are
  parameters here, after \<open>strings.ToLower\<close>, which the string validators use.
\<close>

definition resourceArmMySqlServer ::
  "(string \<Rightarrow> string) \<Rightarrow> 'f Schema \<Rightarrow> 'f Schema \<Rightarrow> 'f \<Rightarrow> (string \<times> 'f Schema) list" where
  "resourceArmMySqlServer strings_ToLower locationSchema tagsSchema ignoreCaseDiffSuppressFunc =
     [(''name'', schema\<lparr>Type := TypeString, Required := True, ForceNew := True\<rparr>),
      (''location'', locationSchema),
      (''resource_group_name'', schema\<lparr>Type := TypeString, Required := True, ForceNew := True\<rparr>),
      (''sku'',
         schema\<lparr>Type := TypeSet, Required := True, MaxItems := 1,
           Elem :=
             [(''name'',
                 field\<lparr>Type := TypeString, Required := True,
                   ValidateFunc := Some (StringInSlice strings_ToLower [''MYSQLB50'', ''MYSQLB100''] True),
                   DiffSuppressFunc := Some ignoreCaseDiffSuppressFunc\<rparr>),
              (''capacity'',
                 field\<lparr>Type := TypeInt, Required := True,
                   ValidateFunc := Some (validateIntInSlice [50, 100])\<rparr>),
              (''tier'',
                 field\<lparr>Type := TypeString, Required := True,
                   ValidateFunc := Some (StringInSlice strings_ToLower [mysql_Basic] True),
                   DiffSuppressFunc := Some ignoreCaseDiffSuppressFunc\<rparr>)]\<rparr>),
      (''administrator_login'', schema\<lparr>Type := TypeString, Required := True, ForceNew := True\<rparr>),
      (''administrator_login_password'', schema\<lparr>Type := TypeString, Required := True, Sensitive := True\<rparr>),
      (''version'',
         schema\<lparr>Type := TypeString, Required := True,
           ValidateFunc := Some (StringInSlice strings_ToLower [mysql_FiveFullStopSix, mysql_FiveFullStopSeven] True),
           DiffSuppressFunc := Some ignoreCaseDiffSuppressFunc, ForceNew := True\<rparr>),
      (''storage_mb'',
         schema\<lparr>Type := TypeInt, Required := True, ForceNew := True,
           ValidateFunc := Some (validateIntInSlice [51200, 102400])\<rparr>),
      (''ssl_enforcement'',
         schema\<lparr>Type := TypeString, Required := True,
           ValidateFunc := Some (StringInSlice strings_ToLower [mysql_SslEnforcementEnumDisabled, mysql_SslEnforcementEnumEnabled] True),
           DiffSuppressFunc := Some ignoreCaseDiffSuppressFunc\<rparr>),
      (''fqdn'', schema\<lparr>Type := TypeString, Computed := True\<rparr>),
      (''tags'', tagsSchema)]"

text \<open>
  The validator the schema gives a top-level field, and the one it gives a field of the
  nested resource of a top-level field. The host accepts a value for a field when the
  field has no validator or the validator returns no error.
\<close>

definition validatorOf :: "(string \<times> 'f Schema) list \<Rightarrow> string \<Rightarrow> SchemaValidateFunc option" where
  "validatorOf s k = (case map_of s k of None \<Rightarrow> None | Some f \<Rightarrow> ValidateFunc f)"

definition elemValidatorOf ::
  "(string \<times> 'f Schema) list \<Rightarrow> string \<Rightarrow> string \<Rightarrow> SchemaValidateFunc option" where
  "elemValidatorOf s k k' =
     (case map_of s k of
        None \<Rightarrow> None
      | Some f \<Rightarrow> (case map_of (Elem f) k' of None \<Rightarrow> None | Some f' \<Rightarrow> ValidateFunc f'))"

definition accepts :: "SchemaValidateFunc option \<Rightarrow> string \<Rightarrow> tf_value \<Rightarrow> bool" where
  "accepts vf k v = (case vf of None \<Rightarrow> True | Some f \<Rightarrow> snd (f v k) = [])"

subsection \<open>A concrete server\<close>

text \<open>
  A configuration, a remote server and stand-ins for the functions of other files, for
  evaluating the resource. The state of the remote side is the list of calls it has
  received.
\<close>

definition helpers0 :: Helpers where
  "helpers0 =
     \<lparr> parseAzureResourceID =
         (\<lambda>s. if s = ''/subscriptions/S/resourceGroups/G/providers/P/servers/N''
               then Inr \<lparr> ResourceGroup = ''G'', Path = [''servers'' \<mapsto> ''N''] \<rparr>
               else Inl (Errorf ''Cannot parse Azure Id: %s'' [ArgS s])),
       azureRMNormalizeLocation = (\<lambda>l. filter (\<lambda>c. c \<noteq> CHR '' '') (asciiToLower l)),
       expandTags = (\<lambda>m. Some (map (\<lambda>(k, v). (k, case v of VString s \<Rightarrow> Some s | _ \<Rightarrow> None)) m)),
       flattenAndSetTags =
         (\<lambda>d t. d_Set d ''tags''
                  (VMap (case t of None \<Rightarrow> [] | Some kvs \<Rightarrow> map (\<lambda>(k, v). (k, ptrString v)) kvs))) \<rparr>"

definition serverConfig :: ResourceData where
  "serverConfig =
     \<lparr> d_Id = '''',
       d_attrs =
         [''name'' \<mapsto> VString ''N'',
          ''location'' \<mapsto> VString ''West Europe'',
          ''resource_group_name'' \<mapsto> VString ''G'',
          ''sku'' \<mapsto> VList [VMap [(''name'', VString ''MYSQLB50''), (''capacity'', VInt 50),
                                    (''tier'', VString ''Basic'')]],
          ''administrator_login'' \<mapsto> VString ''dbadmin'',
          ''administrator_login_password'' \<mapsto> VString ''hunter2'',
          ''version'' \<mapsto> VString ''5.7'',
          ''storage_mb'' \<mapsto> VInt 51200,
          ''ssl_enforcement'' \<mapsto> VString ''Enabled''] \<rparr>"

definition serverState :: ResourceData where
  "serverState = serverConfig\<lparr>d_Id := ''/subscriptions/S/resourceGroups/G/providers/P/servers/N''\<rparr>"

definition remoteServer :: mysql_Server where
  "remoteServer =
     \<lparr> server_Response = Some (httpStatus 200 ''200 OK''),
       server_ID = Some ''/subscriptions/S/resourceGroups/G/providers/P/servers/N'',
       server_Name = Some ''N'',
       server_Location = Some ''West Europe'',
       server_Sku = Some \<lparr> sku_Name = Some ''MYSQLB50'', sku_Capacity = Some 50, sku_Tier = ''Basic'',
                            sku_Size = Some ''51200'' \<rparr>,
       server_Tags = None,
       server_AdministratorLogin = Some ''dbadmin'',
       server_Version = ''5.7'',
       server_StorageMB = Some 51200,
       server_SslEnforcement = ''Enabled'',
       server_FullyQualifiedDomainName = Some ''n.mysql.database.azure.com'' \<rparr>"

definition clientReturning :: "mysql_Server \<times> error option \<Rightarrow> string list ServersClient" where
  "clientReturning r =
     \<lparr> CreateOrUpdate = (\<lambda>resGroup name properties w. (None, w @ [''CreateOrUpdate''])),
       Update = (\<lambda>resGroup name properties w. (None, w @ [''Update''])),
       Get = (\<lambda>resGroup name w. (r, w @ [''Get''])),
       Delete = (\<lambda>resGroup name w. (None, w @ [''Delete''])) \<rparr>"

definition serverGone :: "mysql_Server \<times> error option" where
  "serverGone =
     (remoteServer\<lparr>server_Response := Some (httpStatus 404 ''404 Not Found''), server_ID := None\<rparr>,
      Some (SdkError ''ResourceNotFound''))"

definition serverBusy :: "mysql_Server \<times> error option" where
  "serverBusy =
     (remoteServer\<lparr>server_Response := Some (httpStatus 500 ''500 Internal Server Error''),
                   server_ID := None\<rparr>,
      Some (SdkError ''InternalServerError''))"

definition serverUnreachable :: "mysql_Server \<times> error option" where
  \<comment> \<open>the request was not answered: an error and a result without a response\<close>
  "serverUnreachable =
     (\<lparr> server_Response = None, server_ID = None, server_Name = None, server_Location = None,
        server_Sku = None, server_Tags = None, server_AdministratorLogin = None,
        server_Version = '''', server_StorageMB = None, server_SslEnforcement = '''',
        server_FullyQualifiedDomainName = None \<rparr>,
      Some (SdkError ''connection refused''))"

definition serverWithoutID :: "mysql_Server \<times> error option" where
  "serverWithoutID = (remoteServer\<lparr>server_ID := None\<rparr>, None)"

definition serverConfigSku :: mysql_Sku where
  "serverConfigSku =
     \<lparr> sku_Name = Some ''MYSQLB50'', sku_Capacity = Some 50, sku_Tier = ''Basic'',
       sku_Size = Some ''51200'' \<rparr>"

definition createPayload :: ServerForCreate where
  \<comment> \<open>what \<open>create\<close> sends for \<open>serverConfig\<close>\<close>
  "createPayload =
     \<lparr> create_Location = Some ''West Europe'',
       create_Sku = Some serverConfigSku,
       create_Properties =
         Some \<lparr> create_Version = ''5.7'', create_StorageMB = Some 51200,
                create_SslEnforcement = ''Enabled'', create_AdministratorLogin = None,
                create_AdministratorLoginPassword = None \<rparr>,
       create_Tags = Some [] \<rparr>"

definition updatePayload :: ServerUpdateParameters where
  \<comment> \<open>what \<open>update\<close> sends for \<open>serverState\<close>\<close>
  "updatePayload =
     \<lparr> update_Sku = Some serverConfigSku,
       update_Properties =
         Some \<lparr> update_SslEnforcement = ''Enabled'', update_StorageMB = Some 51200,
                update_Version = ''5.7'', update_AdministratorLoginPassword = Some ''hunter2'' \<rparr>,
       update_Tags = Some [] \<rparr>"



definition emptyState :: ResourceData where
  "emptyState = \<lparr> d_Id = '''', d_attrs = Map.empty \<rparr>"

section \<open>Properties\<close>

subsection \<open>Panics\<close>

lemma bindP_Inr_iff: "bindP m f = Inr r \<longleftrightarrow> (\<exists>x. m = Inr x \<and> f x = Inr r)"
  by (cases m) auto

subsection \<open>Request logging\<close>

lemma withRequestLogging_error:
  "snd (fst (withRequestLogging hu s r lg w)) = snd (fst (s (snd (DumpRequestOut hu r)) w))"
  by (simp add: withRequestLogging_def Let_def split: prod.splits option.splits)

lemma withRequestLogging_outside:
  "snd (snd (withRequestLogging hu s r lg w)) = snd (s (snd (DumpRequestOut hu r)) w)"
  by (simp add: withRequestLogging_def Let_def split: prod.splits option.splits)

lemma withRequestLogging_response:
  "fst (fst (withRequestLogging hu s r lg w)) =
     map_option (\<lambda>rsp. snd (DumpResponse hu rsp)) (fst (fst (s (snd (DumpRequestOut hu r)) w)))"
  by (simp add: withRequestLogging_def Let_def split: prod.splits option.splits)

lemma withRequestLogging_untouched:
  assumes "snd (DumpRequestOut hu r) = r"
    and "\<And>rsp. fst (fst (s r w)) = Some rsp \<Longrightarrow> snd (DumpResponse hu rsp) = rsp"
  shows "fst (withRequestLogging hu s r lg w) = fst (s r w)"
proof (cases "fst (fst (s r w))")
  case None
  then show ?thesis
    using assms(1) withRequestLogging_error [of hu s r lg w] withRequestLogging_response [of hu s r lg w]
    by (simp add: prod_eq_iff)
next
  case (Some rsp)
  then show ?thesis
    using assms withRequestLogging_error [of hu s r lg w] withRequestLogging_response [of hu s r lg w]
    by (simp add: prod_eq_iff)
qed

lemma withRequestLogging_two_lines:
  "\<exists>l1 l2. fst (snd (withRequestLogging hu s r lg w)) = lg @ [l1, l2]"
  by (auto simp: withRequestLogging_def Let_def split: prod.splits option.splits)

lemma withRequestLogging_request_fallback:
  "snd (fst (DumpRequestOut hu r)) \<noteq> None \<Longrightarrow>
   fst (snd (withRequestLogging hu s r lg w)) ! length lg =
     Printf ''[DEBUG] AzureRM Request: %s to %s\<newline>''
       [req_Method (snd (DumpRequestOut hu r)), req_URL (snd (DumpRequestOut hu r))]"
  by (auto simp: withRequestLogging_def Let_def nth_append split: prod.splits option.splits)

lemma withRequestLogging_response_fallback:
  "fst (fst (s (snd (DumpRequestOut hu r)) w)) = Some rsp \<Longrightarrow>
   snd (fst (DumpResponse hu rsp)) \<noteq> None \<Longrightarrow>
   fst (snd (withRequestLogging hu s r lg w)) ! Suc (length lg) =
     Printf ''[DEBUG] AzureRM Response: %s for %s\<newline>''
       [resp_Status (snd (DumpResponse hu rsp)), req_URL (snd (DumpRequestOut hu r))]"
  by (auto simp: withRequestLogging_def Let_def nth_append split: prod.splits option.splits)

text \<open>
  Claim C9 says that the decorated sender returns exactly the pair the underlying sender
  produced, whatever the logging does. With \<open>dumpBreaks\<close>, whose response dump fails
  after reading the body, the underlying sender \<open>sendGone\<close> produces a response with the
  body \<open>ResourceNotFound\<close> and the decorated sender returns that response with an empty
  body.
\<close>

theorem withRequestLogging_transparent_counterexample:
  "fst (sendGone (snd (DumpRequestOut dumpBreaks getServers)) 0) =
     (Some \<lparr> resp_Status = ''404 Not Found'', resp_StatusCode = 404, resp_Body = ''ResourceNotFound'' \<rparr>,
      Some (SdkError ''ResourceNotFound''))
   \<and> fst (withRequestLogging dumpBreaks sendGone getServers [] 0) =
     (Some \<lparr> resp_Status = ''404 Not Found'', resp_StatusCode = 404, resp_Body = '''' \<rparr>,
      Some (SdkError ''ResourceNotFound''))"
  by (simp add: withRequestLogging_def dumpBreaks_def sendGone_def notFoundResponse_def getServers_def)

text \<open>
  Claim C9, amended. The decorated sender hands the request to the underlying sender as
  the request dump left it. It returns the error of the underlying sender unchanged and
  none of its own, and it leaves the outside world as that sender left it. The response it
  returns is the underlying sender's response as the response dump left it, and there is
  none exactly when the sender returned none. So when the two dumps give the request and
  the response back as they received them, the result is exactly the pair the underlying
  sender produces for the request. The function appends exactly two lines to the log and
  changes no earlier line: when the request dump fails, the first is the one-line summary
  with the method and the URL; when there is a response and its dump fails, the second is
  the one-line summary with the status and the URL.
\<close>

theorem withRequestLogging_transparent:
  "snd (fst (withRequestLogging hu s r lg w)) = snd (fst (s (snd (DumpRequestOut hu r)) w))
   \<and> snd (snd (withRequestLogging hu s r lg w)) = snd (s (snd (DumpRequestOut hu r)) w)
   \<and> fst (fst (withRequestLogging hu s r lg w)) =
       map_option (\<lambda>rsp. snd (DumpResponse hu rsp)) (fst (fst (s (snd (DumpRequestOut hu r)) w)))
   \<and> (snd (DumpRequestOut hu r) = r
        \<and> (\<forall>rsp. fst (fst (s r w)) = Some rsp \<longrightarrow> snd (DumpResponse hu rsp) = rsp) \<longrightarrow>
        fst (withRequestLogging hu s r lg w) = fst (s r w))
   \<and> (\<exists>l1 l2. fst (snd (withRequestLogging hu s r lg w)) = lg @ [l1, l2])
   \<and> (snd (fst (DumpRequestOut hu r)) \<noteq> None \<longrightarrow>
        fst (snd (withRequestLogging hu s r lg w)) ! length lg =
          Printf ''[DEBUG] AzureRM Request: %s to %s\<newline>''
            [req_Method (snd (DumpRequestOut hu r)), req_URL (snd (DumpRequestOut hu r))])
   \<and> (\<forall>rsp. fst (fst (s (snd (DumpRequestOut hu r)) w)) = Some rsp
          \<and> snd (fst (DumpResponse hu rsp)) \<noteq> None \<longrightarrow>
        fst (snd (withRequestLogging hu s r lg w)) ! Suc (length lg) =
          Printf ''[DEBUG] AzureRM Response: %s for %s\<newline>''
            [resp_Status (snd (DumpResponse hu rsp)), req_URL (snd (DumpRequestOut hu r))])"
  using withRequestLogging_error [of hu s r lg w] withRequestLogging_outside [of hu s r lg w]
    withRequestLogging_response [of hu s r lg w] withRequestLogging_untouched [of hu r s w lg]
    withRequestLogging_two_lines [of hu s r lg w] withRequestLogging_request_fallback [of hu r s lg w]
    withRequestLogging_response_fallback [of s hu r w _ lg]
  by blast

theorem withRequestLogging_transparent_witness:
  "fst (withRequestLogging dumpWorks sendGone getServers [] 0) =
     (Some notFoundResponse, Some (SdkError ''ResourceNotFound''))
   \<and> snd (snd (withRequestLogging dumpWorks sendGone getServers [] 0)) = 1
   \<and> fst (withRequestLogging dumpWorks sendRefused getServers [] 0) =
       (None, Some (SdkError ''connection refused''))
   \<and> snd (fst (withRequestLogging dumpBreaks sendGone getServers [] 0)) =
       Some (SdkError ''ResourceNotFound'')
   \<and> fst (snd (withRequestLogging dumpBreaks sendGone getServers [] 0)) ! 0 =
       Printf ''[DEBUG] AzureRM Request: %s to %s\<newline>'' [''GET'', ''https://management.azure.com/servers'']
   \<and> fst (snd (withRequestLogging dumpBreaks sendGone getServers [] 0)) ! 1 =
       Printf ''[DEBUG] AzureRM Response: %s for %s\<newline>''
         [''404 Not Found'', ''https://management.azure.com/servers'']"
  using withRequestLogging_transparent [of dumpWorks sendGone getServers "[]" 0]
    withRequestLogging_transparent [of dumpWorks sendRefused getServers "[]" 0]
    withRequestLogging_transparent [of dumpBreaks sendGone getServers "[]" 0]
  by (simp add: dumpBreaks_def dumpWorks_def sendGone_def sendRefused_def getServers_def
      notFoundResponse_def)

subsection \<open>The client factory: resolving the environment\<close>

lemma upperChar_idem: "upperChar (upperChar c) = upperChar c"
  by (auto simp: upperChar_def Let_def)

lemma ToUpper_wrapped:
  "ToUpper (''AZURE'' @ ToUpper n @ ''CLOUD'') = ToUpper (''AZURE'' @ n @ ''CLOUD'')"
  by (simp add: ToUpper_def upperChar_idem)

lemma EnvironmentFromName_wrapped:
  "EnvironmentFromName sdk (''AZURE'' @ ToUpper n @ ''CLOUD'') =
   EnvironmentFromName sdk (''AZURE'' @ n @ ''CLOUD'')"
  unfolding EnvironmentFromName_def ToUpper_wrapped ..

text \<open>
  Claim C5. \<open>getArmClient\<close> looks the environment name up as it is given. When that
  lookup succeeds, the build goes on with the environment found. When it fails, there is
  one more lookup, whose outcome is that of looking up the upper-cased name between
  \<open>AZURE\<close> and \<open>CLOUD\<close> (the source wraps the name as given and the lookup upper-cases
  what it receives); when it succeeds the build goes on with its environment. When both
  fail, the build returns no registry and the error of the first lookup.
\<close>

theorem getArmClient_environment:
  "(\<forall>env. EnvironmentFromName sdk (Environment c) = Inr env \<longrightarrow>
       getArmClient sdk c = getArmClient_withEnvironment sdk c env)
   \<and> (\<forall>e env. EnvironmentFromName sdk (Environment c) = Inl e
        \<and> EnvironmentFromName sdk (''AZURE'' @ ToUpper (Environment c) @ ''CLOUD'') = Inr env \<longrightarrow>
       getArmClient sdk c = getArmClient_withEnvironment sdk c env)
   \<and> (\<forall>e e'. EnvironmentFromName sdk (Environment c) = Inl e
        \<and> EnvironmentFromName sdk (''AZURE'' @ ToUpper (Environment c) @ ''CLOUD'') = Inl e' \<longrightarrow>
       getArmClient sdk c = (None, Some e))"
  using EnvironmentFromName_wrapped [of sdk "Environment c"]
  by (simp add: getArmClient_def)

theorem getArmClient_environment_witness:
  "getArmClient sdkWorks (credentials ''azurepubliccloud'') =
     getArmClient_withEnvironment sdkWorks (credentials ''azurepubliccloud'') publicCloud
   \<and> getArmClient sdkWorks (credentials ''german'') =
     getArmClient_withEnvironment sdkWorks (credentials ''german'') germanCloud
   \<and> getArmClient sdkWorks (credentials ''mars'') =
     (None, Some (Errorf ''autorest/azure: There is no cloud environment matching the name %q''
                    [ArgS ''MARS'']))"
  using getArmClient_environment [of sdkWorks "credentials ''azurepubliccloud''"]
    getArmClient_environment [of sdkWorks "credentials ''german''"]
    getArmClient_environment [of sdkWorks "credentials ''mars''"]
  by (simp add: EnvironmentFromName_def sdkWorks_def credentials_def ToUpper_def upperChar_def)

subsection \<open>The client factory: all or nothing\<close>

lemma foldl_assign_clients:
  "clients (foldl assign cl fcs) = clients cl ++ map_of (rev fcs)"
  by (induction fcs arbitrary: cl) (auto simp: assign_def map_add_def fun_eq_iff split: option.splits)

lemma foldl_assign_frame:
  "clientId (foldl assign cl fcs) = clientId cl \<and> tenantId (foldl assign cl fcs) = tenantId cl
   \<and> subscriptionId (foldl assign cl fcs) = subscriptionId cl
   \<and> environment (foldl assign cl fcs) = environment cl"
  by (induction fcs arbitrary: cl) (simp_all add: assign_def)

lemma foldl_assign_holds:
  assumes "distinct (map fst fcs)" and "(f, h) \<in> set fcs"
  shows "clients (foldl assign cl fcs) f = Some h"
proof -
  have "distinct (map fst (rev fcs))" using assms(1) by (simp add: rev_map [symmetric])
  moreover have "(f, h) \<in> set (rev fcs)" using assms(2) by simp
  ultimately have "map_of (rev fcs) f = Some h" by (rule map_of_is_SomeI)
  then show ?thesis by (simp add: foldl_assign_clients map_add_def)
qed

lemma foldl_assign_other:
  assumes "f \<notin> fst ` set fcs"
  shows "clients (foldl assign cl fcs) f = clients cl f"
proof -
  have "map_of (rev fcs) f = None" using assms by (simp add: map_of_eq_None_iff)
  then show ?thesis by (simp add: foldl_assign_clients map_add_def)
qed

lemma declarations_distinct:
  "distinct (map fst (getArmClient_declarations sdk c endpoint graphEndpoint auth graphAuth keyVaultAuth sender))"
  by (simp add: getArmClient_declarations_def)





lemma declarations_configured:
  "list_all (configured sdk c endpoint graphEndpoint auth graphAuth keyVaultAuth sender)
     (getArmClient_declarations sdk c endpoint graphEndpoint auth graphAuth keyVaultAuth sender)"
  by (simp add: getArmClient_declarations_def configured_def setUserAgent_def NewClientWithBaseURI_def
      NewTenantClientWithBaseURI_def NewClient_def)

lemma declarations_all_configured:
  "\<forall>fh \<in> set (getArmClient_declarations sdk c endpoint graphEndpoint auth graphAuth keyVaultAuth sender).
     configured sdk c endpoint graphEndpoint auth graphAuth keyVaultAuth sender fh"
  using declarations_configured [of sdk c endpoint graphEndpoint auth graphAuth keyVaultAuth sender]
  by (simp add: list_all_iff)

lemma withEnvironment_success:
  assumes "adal_NewOAuthConfig sdk (ActiveDirectoryEndpoint env) (TenantID c) = (Some oc, None)"
    and "adal_NewServicePrincipalToken sdk oc (ClientID c) (ClientSecret c) (ResourceManagerEndpoint env) = (spt, None)"
    and "adal_NewServicePrincipalToken sdk oc (ClientID c) (ClientSecret c) (GraphEndpoint env) = (graphSpt, None)"
  shows "\<exists>reg keyVaultAuth. getArmClient_withEnvironment sdk c env = (Some reg, None)
      \<and> clientId reg = ClientID c \<and> tenantId reg = TenantID c
      \<and> subscriptionId reg = SubscriptionID c \<and> environment reg = env
      \<and> (\<forall>(f, h) \<in> set (getArmClient_declarations sdk c (ResourceManagerEndpoint env) (GraphEndpoint env)
             (BearerAuthorizer spt) (BearerAuthorizer graphSpt) keyVaultAuth (CreateSender [WithRequestLogging])).
           clients reg f = Some h
           \<and> configured sdk c (ResourceManagerEndpoint env) (GraphEndpoint env) (BearerAuthorizer spt)
               (BearerAuthorizer graphSpt) keyVaultAuth (CreateSender [WithRequestLogging]) (f, h))"
proof -
  have "\<exists>reg keyVaultAuth. getArmClient_withEnvironment sdk c env = (Some reg, None)
      \<and> clientId reg = ClientID c \<and> tenantId reg = TenantID c
      \<and> subscriptionId reg = SubscriptionID c \<and> environment reg = env
      \<and> (\<forall>(f, h) \<in> set (getArmClient_declarations sdk c (ResourceManagerEndpoint env) (GraphEndpoint env)
             (BearerAuthorizer spt) (BearerAuthorizer graphSpt) keyVaultAuth (CreateSender [WithRequestLogging])).
           clients reg f = Some h)"
    using assms
    by (auto simp: getArmClient_withEnvironment_def Let_def foldl_assign_frame
        intro!: exI foldl_assign_holds declarations_distinct)
  then obtain reg kv where
    r: "getArmClient_withEnvironment sdk c env = (Some reg, None)"
      "clientId reg = ClientID c" "tenantId reg = TenantID c"
      "subscriptionId reg = SubscriptionID c" "environment reg = env"
    and h: "\<forall>(f, h) \<in> set (getArmClient_declarations sdk c (ResourceManagerEndpoint env) (GraphEndpoint env)
             (BearerAuthorizer spt) (BearerAuthorizer graphSpt) kv (CreateSender [WithRequestLogging])).
           clients reg f = Some h"
    by blast
  have "\<forall>(f, h) \<in> set (getArmClient_declarations sdk c (ResourceManagerEndpoint env) (GraphEndpoint env)
             (BearerAuthorizer spt) (BearerAuthorizer graphSpt) kv (CreateSender [WithRequestLogging])).
           clients reg f = Some h
           \<and> configured sdk c (ResourceManagerEndpoint env) (GraphEndpoint env) (BearerAuthorizer spt)
               (BearerAuthorizer graphSpt) kv (CreateSender [WithRequestLogging]) (f, h)"
    using h declarations_all_configured [of sdk c "ResourceManagerEndpoint env" "GraphEndpoint env"
        "BearerAuthorizer spt" "BearerAuthorizer graphSpt" kv "CreateSender [WithRequestLogging]"]
    by blast
  with r show ?thesis by blast
qed









subsection \<open>The client factory: the clients of the registry\<close>

lemma zeroClients_undeclared: "zeroClients ''mysqlServersClient'' = None"
  by (simp add: zeroClients_def ArmClient_fields_def)

lemma mysql_not_assigned:
  "''mysqlServersClient'' \<notin>
     fst ` set (getArmClient_declarations sdk c endpoint graphEndpoint auth graphAuth keyVaultAuth sender)"
  by (simp add: getArmClient_declarations_def)

lemma withEnvironment_no_mysql:
  "getArmClient_withEnvironment sdk c env = (Some reg, None) \<Longrightarrow> clients reg ''mysqlServersClient'' = None"
  by (auto simp: getArmClient_withEnvironment_def Let_def foldl_assign_other [OF mysql_not_assigned]
      zeroClients_undeclared split: prod.splits option.splits)

lemma getArmClient_no_mysql:
  "getArmClient sdk c = (Some reg, None) \<Longrightarrow> clients reg ''mysqlServersClient'' = None"
  using withEnvironment_no_mysql [of sdk c _ reg]
  by (auto simp: getArmClient_def Let_def split: sum.splits)

lemma getArmClient_german:
  "getArmClient sdkWorks (credentials ''german'') =
     getArmClient_withEnvironment sdkWorks (credentials ''german'') germanCloud"
  by (simp add: getArmClient_def EnvironmentFromName_def sdkWorks_def credentials_def ToUpper_def
      upperChar_def)

lemma netUsage_not_assigned:
  "''netUsageClient'' \<notin>
     fst ` set (getArmClient_declarations sdk c endpoint graphEndpoint auth graphAuth keyVaultAuth sender)"
  by (simp add: getArmClient_declarations_def)

lemma zeroClients_netUsage: "zeroClients ''netUsageClient'' = Some (zeroClient ''network.UsagesClient'')"
  by (simp add: zeroClients_def ArmClient_fields_def)

lemma withEnvironment_netUsage:
  "getArmClient_withEnvironment sdk c env = (Some reg, None) \<Longrightarrow>
   clients reg ''netUsageClient'' = Some (zeroClient ''network.UsagesClient'')"
  by (auto simp: getArmClient_withEnvironment_def Let_def foldl_assign_other [OF netUsage_not_assigned]
      zeroClients_netUsage split: prod.splits option.splits)

lemma postgresql_assigned:
  "\<exists>h. (''postgresqlServersClient'', h) \<in>
     set (getArmClient_declarations sdk c endpoint graphEndpoint auth graphAuth keyVaultAuth sender)"
  by (simp add: getArmClient_declarations_def)

text \<open>
  Claim C7, at a concrete build. With credentials for the German cloud and an SDK that
  issues every token, \<open>getArmClient\<close> returns a registry. The registry has no client
  under \<open>mysqlServersClient\<close>, the field the MySQL resource reads its client from, and
  \<open>ArmClient\<close> declares no field of that name; the client of the PostgreSQL servers is
  there. The field \<open>netUsageClient\<close>, which the struct declares and the function never
  assigns, holds the zero value of its type.
\<close>

theorem mysqlServersClient_not_in_registry:
  "\<exists>reg. getArmClient sdkWorks (credentials ''german'') = (Some reg, None)
     \<and> clients reg ''mysqlServersClient'' = None
     \<and> map_of ArmClient_fields ''mysqlServersClient'' = None
     \<and> clients reg ''postgresqlServersClient'' \<noteq> None
     \<and> clients reg ''netUsageClient'' = Some (zeroClient ''network.UsagesClient'')"
proof -
  have oc: "adal_NewOAuthConfig sdkWorks (ActiveDirectoryEndpoint germanCloud) (TenantID (credentials ''german''))
      = (Some (ActiveDirectoryEndpoint germanCloud @ TenantID (credentials ''german'')), None)"
    by (simp add: sdkWorks_def)
  have tok: "adal_NewServicePrincipalToken sdkWorks oc' a b r = (''token:'' @ r, None)" for oc' a b r
    by (simp add: sdkWorks_def)
  from withEnvironment_success [OF oc tok tok]
  obtain reg kv where reg: "getArmClient_withEnvironment sdkWorks (credentials ''german'') germanCloud = (Some reg, None)"
    and all: "\<forall>(f, h) \<in> set (getArmClient_declarations sdkWorks (credentials ''german'')
        (ResourceManagerEndpoint germanCloud) (GraphEndpoint germanCloud)
        (BearerAuthorizer (''token:'' @ ResourceManagerEndpoint germanCloud))
        (BearerAuthorizer (''token:'' @ GraphEndpoint germanCloud)) kv (CreateSender [WithRequestLogging])).
          clients reg f = Some h"
    by blast
  from postgresql_assigned all have pg: "clients reg ''postgresqlServersClient'' \<noteq> None"
    by fastforce
  have "map_of ArmClient_fields ''mysqlServersClient'' = None"
    by (simp add: ArmClient_fields_def)
  with reg pg withEnvironment_no_mysql [OF reg] withEnvironment_netUsage [OF reg] show ?thesis
    by (auto simp: getArmClient_german)
qed

subsection \<open>Storage account keys\<close>

lemma getKey_no_response:
  "ListKeys_Response (fst (storageServiceClient_ListKeys a rg n)) = None \<Longrightarrow>
   getKeyForStorageAccount a rg n = Inl NilDereference"
  by (cases "storageServiceClient_ListKeys a rg n") (simp add: getKeyForStorageAccount_def)

lemma helpers_no_response:
  assumes "ListKeys_Response (fst (storageServiceClient_ListKeys a rg n)) = None"
  shows "getBlobStorageClientForStorageAccount a rg n = Inl NilDereference"
    and "getFileServiceClientForStorageAccount a rg n = Inl NilDereference"
    and "getTableServiceClientForStorageAccount a rg n = Inl NilDereference"
    and "getQueueServiceClientForStorageAccount a rg n = Inl NilDereference"
  using getKey_no_response [OF assms]
  by (simp_all add: getBlobStorageClientForStorageAccount_def getFileServiceClientForStorageAccount_def
      getTableServiceClientForStorageAccount_def getQueueServiceClientForStorageAccount_def)

lemma getKey_notFound:
  "ListKeys_Response (fst (storageServiceClient_ListKeys a rg n)) = Some rp \<Longrightarrow>
   resp_StatusCode rp = StatusNotFound \<Longrightarrow>
   getKeyForStorageAccount a rg n = Inr ('''', False, None)"
  by (cases "storageServiceClient_ListKeys a rg n") (simp add: getKeyForStorageAccount_def)

lemma getKey_absent_iff:
  "getKeyForStorageAccount a rg n = Inr (k, False, None) \<longleftrightarrow>
   k = '''' \<and> (\<exists>rp. ListKeys_Response (fst (storageServiceClient_ListKeys a rg n)) = Some rp
                  \<and> resp_StatusCode rp = StatusNotFound)"
  by (auto simp: getKeyForStorageAccount_def split: prod.splits option.splits list.splits)

lemma helpers_inherit_error:
  assumes "getKeyForStorageAccount a rg n = Inr (k, ex, Some e)"
  shows "getBlobStorageClientForStorageAccount a rg n = Inr (None, ex, Some e)"
    and "getFileServiceClientForStorageAccount a rg n = Inr (None, ex, Some e)"
    and "getTableServiceClientForStorageAccount a rg n = Inr (None, ex, Some e)"
    and "getQueueServiceClientForStorageAccount a rg n = Inr (None, ex, Some e)"
  using assms
  by (simp_all add: getBlobStorageClientForStorageAccount_def getFileServiceClientForStorageAccount_def
      getTableServiceClientForStorageAccount_def getQueueServiceClientForStorageAccount_def)

lemma blob_absent_iff:
  "getBlobStorageClientForStorageAccount a rg n = Inr (None, False, None) \<longleftrightarrow>
   (\<exists>k. getKeyForStorageAccount a rg n = Inr (k, False, None))"
  by (auto simp: getBlobStorageClientForStorageAccount_def split: sum.splits prod.splits option.splits)

lemma file_absent_iff:
  "getFileServiceClientForStorageAccount a rg n = Inr (None, False, None) \<longleftrightarrow>
   (\<exists>k. getKeyForStorageAccount a rg n = Inr (k, False, None))"
  by (auto simp: getFileServiceClientForStorageAccount_def split: sum.splits prod.splits option.splits)

lemma table_absent_iff:
  "getTableServiceClientForStorageAccount a rg n = Inr (None, False, None) \<longleftrightarrow>
   (\<exists>k. getKeyForStorageAccount a rg n = Inr (k, False, None))"
  by (auto simp: getTableServiceClientForStorageAccount_def split: sum.splits prod.splits option.splits)

lemma queue_absent_iff:
  "getQueueServiceClientForStorageAccount a rg n = Inr (None, False, None) \<longleftrightarrow>
   (\<exists>k. getKeyForStorageAccount a rg n = Inr (k, False, None))"
  by (auto simp: getQueueServiceClientForStorageAccount_def split: sum.splits prod.splits option.splits)

text \<open>
  What holds of \<open>getKeyForStorageAccount\<close> when \<open>ListKeys\<close> comes back with a response:
  a 404 gives \<open>("", false, nil)\<close>; another status with an error gives \<open>exists = true\<close>
  and an error built from the account name and the listing error; no error and a nil key
  list gives \<open>("", false, error)\<close>; otherwise the value of the first key is returned,
  and an empty key list is an index out of range.
\<close>

lemma getKeyForStorageAccount_with_response:
  assumes "storageServiceClient_ListKeys a rg n = (res, lerr)"
    and "ListKeys_Response res = Some rp"
  shows "getKeyForStorageAccount a rg n =
     (if resp_StatusCode rp = 404 then Inr ('''', False, None)
      else case lerr of
             Some e \<Rightarrow>
               Inr ('''', True,
                 Some (Errorf ''Error retrieving keys for storage account %q: %s'' [ArgS n, ArgE e]))
           | None \<Rightarrow>
               (case ListKeys_Keys res of
                  None \<Rightarrow> Inr ('''', False, Some (Errorf ''Nil key returned for storage account %q'' [ArgS n]))
                | Some [] \<Rightarrow> Inl IndexOutOfRange
                | Some (k # ks) \<Rightarrow>
                    (case KeyValue k of None \<Rightarrow> Inl NilDereference | Some v \<Rightarrow> Inr (v, True, None))))"
  using assms by (simp add: getKeyForStorageAccount_def StatusNotFound_def split: list.splits)

text \<open>
  Claim C10, where the code departs from it. The claim has every listing failure other
  than a 404 yield \<open>exists = true\<close> with the error, and the comment in the source says
  the same of a transient error. When \<open>ListKeys\<close> fails without a response (here:
  connection refused), \<open>getKeyForStorageAccount\<close> reads the status code through the nil
  response before it looks at the error, and panics; so do the four service helpers.
  With a response that carries another status (here: 429) the result is as the claim
  says.
\<close>

theorem getKeyForStorageAccount_no_response:
  "storageServiceClient_ListKeys (storageAccessOf keysUnreachable) ''rg'' ''acct'' =
     (\<lparr>ListKeys_Response = None, ListKeys_Keys = None\<rparr>, Some (SdkError ''connection refused''))
   \<and> getKeyForStorageAccount (storageAccessOf keysUnreachable) ''rg'' ''acct'' = Inl NilDereference
   \<and> getBlobStorageClientForStorageAccount (storageAccessOf keysUnreachable) ''rg'' ''acct'' = Inl NilDereference
   \<and> getFileServiceClientForStorageAccount (storageAccessOf keysUnreachable) ''rg'' ''acct'' = Inl NilDereference
   \<and> getTableServiceClientForStorageAccount (storageAccessOf keysUnreachable) ''rg'' ''acct'' = Inl NilDereference
   \<and> getQueueServiceClientForStorageAccount (storageAccessOf keysUnreachable) ''rg'' ''acct'' = Inl NilDereference
   \<and> getKeyForStorageAccount (storageAccessOf keysThrottled) ''rg'' ''acct'' =
       Inr ('''', True,
         Some (Errorf ''Error retrieving keys for storage account %q: %s''
           [ArgS ''acct'', ArgE (SdkError ''TooManyRequests'')]))"
proof -
  have l: "storageServiceClient_ListKeys (storageAccessOf r) ''rg'' ''acct'' = r" for r
    by (simp add: storageAccessOf_def)
  have n: "ListKeys_Response (fst (storageServiceClient_ListKeys (storageAccessOf keysUnreachable) ''rg'' ''acct'')) = None"
    by (simp add: l keysUnreachable_def)
  have t: "storageServiceClient_ListKeys (storageAccessOf keysThrottled) ''rg'' ''acct'' =
      (fst keysThrottled, Some (SdkError ''TooManyRequests''))"
    "ListKeys_Response (fst keysThrottled) = Some (httpStatus 429 ''429 Too Many Requests'')"
    by (simp_all add: l keysThrottled_def)
  show ?thesis
    using getKey_no_response [OF n] helpers_no_response [OF n]
      getKeyForStorageAccount_with_response [OF t]
    by (simp add: l keysUnreachable_def httpStatus_def)
qed

subsection \<open>The MySQL server resource: read\<close>

text \<open>
  What holds of \<open>read\<close> when \<open>Get\<close> fails with a response: a 404 clears the identifier
  of the state and returns no error; any other status returns an error built from the
  name of the server and the error of \<open>Get\<close>, and leaves the state as it was.
\<close>

lemma read_get_failed:
  assumes "parseAzureResourceID hp (d_Id d) = Inr rid"
    and "Get client (ResourceGroup rid) (pathSegment rid ''servers'') w = ((resp, Some e), w1)"
    and "server_Response resp = Some response"
  shows "resourceArmMySqlServerRead hp client d w =
     (if resp_StatusCode response = 404 then Inr (None, d\<lparr>d_Id := ''''\<rparr>, w1)
      else Inr (Some (Errorf ''Error making Read request on Azure MySQL Server %s: %+v''
                        [ArgS (pathSegment rid ''servers''), ArgE e]), d, w1))"
  using assms by (simp add: resourceArmMySqlServerRead_def StatusNotFound_def d_SetId_def)

lemma read_get_failed_no_response:
  assumes "parseAzureResourceID hp (d_Id d) = Inr rid"
    and "Get client (ResourceGroup rid) (pathSegment rid ''servers'') w = ((resp, Some e), w1)"
    and "server_Response resp = None"
  shows "resourceArmMySqlServerRead hp client d w = Inl NilDereference"
  using assms by (simp add: resourceArmMySqlServerRead_def)

text \<open>
  Claim C1, where the code departs from it. The claim has every failure of \<open>Get\<close> other
  than a 404 surfaced as an error that names the server. When \<open>Get\<close> fails without a
  response (here: connection refused), \<open>read\<close> takes the status code through the nil
  response and panics; no error is returned. With a response, a 404 clears the
  identifier and returns no error, and a 500 returns the error with the name of the
  server.
\<close>

theorem resourceArmMySqlServerRead_no_response:
  "Get (clientReturning serverUnreachable) ''G'' ''N'' [] =
     ((fst serverUnreachable, Some (SdkError ''connection refused'')), [''Get''])
   \<and> server_Response (fst serverUnreachable) = None
   \<and> resourceArmMySqlServerRead helpers0 (clientReturning serverUnreachable) serverState [] =
       Inl NilDereference
   \<and> resourceArmMySqlServerRead helpers0 (clientReturning serverGone) serverState [] =
       Inr (None, serverState\<lparr>d_Id := ''''\<rparr>, [''Get''])
   \<and> resourceArmMySqlServerRead helpers0 (clientReturning serverBusy) serverState [] =
       Inr (Some (Errorf ''Error making Read request on Azure MySQL Server %s: %+v''
                    [ArgS ''N'', ArgE (SdkError ''InternalServerError'')]), serverState, [''Get''])"
proof -
  let ?rid = "\<lparr> ResourceGroup = ''G'', Path = [''servers'' \<mapsto> ''N''] \<rparr>"
  have p: "parseAzureResourceID helpers0 (d_Id serverState) = Inr ?rid"
    by (simp add: helpers0_def serverState_def)
  have seg: "pathSegment ?rid ''servers'' = ''N''" by (simp add: pathSegment_def)
  have g0: "Get (clientReturning serverUnreachable) (ResourceGroup ?rid) (pathSegment ?rid ''servers'') [] =
      ((fst serverUnreachable, Some (SdkError ''connection refused'')), [''Get''])"
    by (simp add: clientReturning_def serverUnreachable_def)
  have g1: "Get (clientReturning serverGone) (ResourceGroup ?rid) (pathSegment ?rid ''servers'') [] =
      ((fst serverGone, Some (SdkError ''ResourceNotFound'')), [''Get''])"
    by (simp add: clientReturning_def serverGone_def)
  have g2: "Get (clientReturning serverBusy) (ResourceGroup ?rid) (pathSegment ?rid ''servers'') [] =
      ((fst serverBusy, Some (SdkError ''InternalServerError'')), [''Get''])"
    by (simp add: clientReturning_def serverBusy_def)
  have r0: "server_Response (fst serverUnreachable) = None"
    by (simp add: serverUnreachable_def)
  have r1: "server_Response (fst serverGone) = Some (httpStatus 404 ''404 Not Found'')"
    by (simp add: serverGone_def)
  have r2: "server_Response (fst serverBusy) = Some (httpStatus 500 ''500 Internal Server Error'')"
    by (simp add: serverBusy_def)
  show ?thesis
    using read_get_failed_no_response [OF p g0 r0] read_get_failed [OF p g1 r1]
      read_get_failed [OF p g2 r2] g0 r0
    by (simp add: seg httpStatus_def)
qed

subsection \<open>The concrete server, evaluated\<close>

lemma Itoa_51200: "Itoa 51200 = ''51200''"
  by (simp add: Itoa_def digitsOf.simps [of 51200] digitsOf.simps [of 5120] digitsOf.simps [of 512]
      digitsOf.simps [of 51] digitsOf.simps [of 5])

lemma expand_B50:
  "d_attrs d ''sku'' = Some (VList [VMap [(''name'', VString ''MYSQLB50''), (''capacity'', VInt 50),
                                    (''tier'', VString ''Basic'')]]) \<Longrightarrow>
   expandMySQLServerSku d 51200 =
     Inr \<lparr> sku_Name = Some ''MYSQLB50'', sku_Capacity = Some 50, sku_Tier = ''Basic'',
           sku_Size = Some ''51200'' \<rparr>"
  by (simp add: expandMySQLServerSku_def d_GetSetList_def assertMap_def
      assertString_def assertInt_def Itoa_51200)

lemma expandTags0: "expandTags helpers0 [] = Some []"
  by (simp add: helpers0_def)

lemma serverConfig_attrs:
  "d_attrs serverConfig ''name'' = Some (VString ''N'')"
  "d_attrs serverConfig ''location'' = Some (VString ''West Europe'')"
  "d_attrs serverConfig ''resource_group_name'' = Some (VString ''G'')"
  "d_attrs serverConfig ''administrator_login_password'' = Some (VString ''hunter2'')"
  "d_attrs serverConfig ''ssl_enforcement'' = Some (VString ''Enabled'')"
  "d_attrs serverConfig ''version'' = Some (VString ''5.7'')"
  "d_attrs serverConfig ''storage_mb'' = Some (VInt 51200)"
  "d_attrs serverConfig ''tags'' = None"
  "d_attrs serverConfig ''sku'' = Some (VList [VMap [(''name'', VString ''MYSQLB50''), (''capacity'', VInt 50),
                                    (''tier'', VString ''Basic'')]])"
  by (simp_all add: serverConfig_def)

lemma serverState_attrs: "d_attrs serverState = d_attrs serverConfig"
  by (simp add: serverState_def)

lemma create_properties_serverConfig:
  "resourceArmMySqlServerCreate_properties helpers0 serverConfig = Inr (''G'', ''N'', createPayload)"
  by (simp add: resourceArmMySqlServerCreate_properties_def d_GetString_def d_GetInt_def d_GetMap_def
      serverConfig_attrs expandTags0 expand_B50 createPayload_def serverConfigSku_def)

lemma update_properties_serverState:
  "resourceArmMySqlServerUpdate_properties helpers0 serverState = Inr (''G'', ''N'', updatePayload)"
  by (simp add: resourceArmMySqlServerUpdate_properties_def d_GetString_def d_GetInt_def d_GetMap_def
      serverState_attrs serverConfig_attrs expandTags0 expand_B50 updatePayload_def serverConfigSku_def)

lemma lower_west: "asciiToLower ''West Europe'' = ''west europe''"
  by (simp add: asciiToLower_def lowerChar_def)

lemma normalize0: "azureRMNormalizeLocation helpers0 ''West Europe'' = ''westeurope''"
  by (simp add: helpers0_def lower_west)

lemma parse0:
  "parseAzureResourceID helpers0 ''/subscriptions/S/resourceGroups/G/providers/P/servers/N'' =
     Inr \<lparr> ResourceGroup = ''G'', Path = [''servers'' \<mapsto> ''N''] \<rparr>"
  by (simp add: helpers0_def)

lemma get0: "Get (clientReturning r) rg n w = (r, w @ [''Get''])"
  by (simp add: clientReturning_def)

lemma createOrUpdate0: "CreateOrUpdate (clientReturning r) rg n p w = (None, w @ [''CreateOrUpdate''])"
  by (simp add: clientReturning_def)

lemma update0: "Update (clientReturning r) rg n p w = (None, w @ [''Update''])"
  by (simp add: clientReturning_def)

lemma tags0: "flattenAndSetTags helpers0 d None = d_Set d ''tags'' (VMap [])"
  by (simp add: helpers0_def)

lemma read_remoteServer:
  assumes "d_Id d = ''/subscriptions/S/resourceGroups/G/providers/P/servers/N''"
  shows "resourceArmMySqlServerRead helpers0 (clientReturning (remoteServer, None)) d w =
     Inr (None,
       d_Set (d_Set (d_Set (d_Set (d_Set (d_Set (d_Set (d_Set (d_Set (d_Set d
         ''name'' (VString ''N'')) ''resource_group_name'' (VString ''G''))
         ''location'' (VString ''westeurope'')) ''administrator_login'' (VString ''dbadmin''))
         ''version'' (VString ''5.7'')) ''storage_mb'' (VInt 51200))
         ''ssl_enforcement'' (VString ''Enabled''))
         ''sku'' (VList [VMap [(''name'', VString ''MYSQLB50''), (''capacity'', VInt 50),
                               (''tier'', VString ''Basic'')]]))
         ''tags'' (VMap [])) ''fqdn'' (VString ''n.mysql.database.azure.com''),
       w @ [''Get''])"
  unfolding resourceArmMySqlServerRead_def
  by (simp add: assms parse0 get0 tags0 normalize0 remoteServer_def
       pathSegment_def ptrString_def flattenAndSetMySQLServerSku_def Let_def)

subsection \<open>The MySQL server resource: create and update\<close>

lemma create_after_completion:
  assumes "resourceArmMySqlServerCreate_properties hp d = Inr (rg, n, p)"
    and "CreateOrUpdate client rg n p w = (None, w1)"
    and "Get client rg n w1 = ((rd, gerr), w2)"
  shows "resourceArmMySqlServerCreate hp client d w =
     (case gerr of
        Some e \<Rightarrow> Inr (Some e, d, w2)
      | None \<Rightarrow>
          (case server_ID rd of
             None \<Rightarrow> Inr (Some (Errorf ''Cannot read MySQL Server %s (resource group %s) ID''
                                  [ArgS n, ArgS rg]), d, w2)
           | Some i \<Rightarrow> resourceArmMySqlServerRead hp client (d_SetId d i) w2))"
  using assms by (simp add: resourceArmMySqlServerCreate_def)

lemma update_after_completion:
  assumes "resourceArmMySqlServerUpdate_properties hp d = Inr (rg, n, p)"
    and "Update client rg n p w = (None, w1)"
    and "Get client rg n w1 = ((rd, gerr), w2)"
  shows "resourceArmMySqlServerUpdate hp client d w =
     (case gerr of
        Some e \<Rightarrow> Inr (Some e, d, w2)
      | None \<Rightarrow>
          (case server_ID rd of
             None \<Rightarrow> Inr (Some (Errorf ''Cannot read MySQL Server %s (resource group %s) ID''
                                  [ArgS n, ArgS rg]), d, w2)
           | Some i \<Rightarrow> resourceArmMySqlServerRead hp client (d_SetId d i) w2))"
  using assms by (simp add: resourceArmMySqlServerUpdate_def)

lemma create_success_complete:
  assumes "resourceArmMySqlServerCreate hp client d w = Inr (None, d', w')"
  shows "\<exists>rg n p w1 rd w2 i.
       resourceArmMySqlServerCreate_properties hp d = Inr (rg, n, p)
     \<and> CreateOrUpdate client rg n p w = (None, w1)
     \<and> Get client rg n w1 = ((rd, None), w2)
     \<and> server_ID rd = Some i
     \<and> resourceArmMySqlServerRead hp client (d_SetId d i) w2 = Inr (None, d', w')"
proof (cases "resourceArmMySqlServerCreate_properties hp d")
  case (Inl p)
  with assms show ?thesis by (simp add: resourceArmMySqlServerCreate_def)
next
  case (Inr r)
  obtain rg n p where r: "r = (rg, n, p)" by (cases r)
  obtain cerr w1 where c: "CreateOrUpdate client rg n p w = (cerr, w1)" by (cases "CreateOrUpdate client rg n p w")
  obtain rd gerr w2 where g: "Get client rg n w1 = ((rd, gerr), w2)"
    by (cases "Get client rg n w1") auto
  from assms Inr r c g show ?thesis
    by (auto simp: resourceArmMySqlServerCreate_def split: option.splits)
qed

lemma update_success_complete:
  assumes "resourceArmMySqlServerUpdate hp client d w = Inr (None, d', w')"
  shows "\<exists>rg n p w1 rd w2 i.
       resourceArmMySqlServerUpdate_properties hp d = Inr (rg, n, p)
     \<and> Update client rg n p w = (None, w1)
     \<and> Get client rg n w1 = ((rd, None), w2)
     \<and> server_ID rd = Some i
     \<and> resourceArmMySqlServerRead hp client (d_SetId d i) w2 = Inr (None, d', w')"
proof (cases "resourceArmMySqlServerUpdate_properties hp d")
  case (Inl p)
  with assms show ?thesis by (simp add: resourceArmMySqlServerUpdate_def)
next
  case (Inr r)
  obtain rg n p where r: "r = (rg, n, p)" by (cases r)
  obtain cerr w1 where c: "Update client rg n p w = (cerr, w1)" by (cases "Update client rg n p w")
  obtain rd gerr w2 where g: "Get client rg n w1 = ((rd, gerr), w2)"
    by (cases "Get client rg n w1") auto
  from assms Inr r c g show ?thesis
    by (auto simp: resourceArmMySqlServerUpdate_def split: option.splits)
qed

text \<open>
  Claim C2. Let \<open>create\<close> (or \<open>update\<close>) have built its payload and let the
  long-running \<open>CreateOrUpdate\<close> (or \<open>Update\<close>) have ended without an error. Then the
  function calls \<open>Get\<close> on the state the operation left. If \<open>Get\<close> returns an error,
  that error is the result. If the server returned has no identifier, the result is an
  error built from the name of the server and the resource group. Otherwise the result
  is that of \<open>read\<close> on the state with the identifier set. And whenever \<open>create\<close> (or
  \<open>update\<close>) returns without an error, every step has succeeded: the payload was
  built, the operation and \<open>Get\<close> returned no error, the identifier was there, and
  \<open>read\<close> returned no error; the state returned is the one \<open>read\<close> returned.
\<close>

theorem create_update_follow_up:
  "(\<forall>rg n p w1 rd gerr w2.
       resourceArmMySqlServerCreate_properties hp d = Inr (rg, n, p)
     \<and> CreateOrUpdate client rg n p w = (None, w1)
     \<and> Get client rg n w1 = ((rd, gerr), w2) \<longrightarrow>
       resourceArmMySqlServerCreate hp client d w =
         (case gerr of
            Some e \<Rightarrow> Inr (Some e, d, w2)
          | None \<Rightarrow>
              (case server_ID rd of
                 None \<Rightarrow> Inr (Some (Errorf ''Cannot read MySQL Server %s (resource group %s) ID''
                                      [ArgS n, ArgS rg]), d, w2)
               | Some i \<Rightarrow> resourceArmMySqlServerRead hp client (d_SetId d i) w2)))
   \<and> (\<forall>rg n p w1 rd gerr w2.
       resourceArmMySqlServerUpdate_properties hp d = Inr (rg, n, p)
     \<and> Update client rg n p w = (None, w1)
     \<and> Get client rg n w1 = ((rd, gerr), w2) \<longrightarrow>
       resourceArmMySqlServerUpdate hp client d w =
         (case gerr of
            Some e \<Rightarrow> Inr (Some e, d, w2)
          | None \<Rightarrow>
              (case server_ID rd of
                 None \<Rightarrow> Inr (Some (Errorf ''Cannot read MySQL Server %s (resource group %s) ID''
                                      [ArgS n, ArgS rg]), d, w2)
               | Some i \<Rightarrow> resourceArmMySqlServerRead hp client (d_SetId d i) w2)))
   \<and> (\<forall>d' w'. resourceArmMySqlServerCreate hp client d w = Inr (None, d', w') \<longrightarrow>
        (\<exists>rg n p w1 rd w2 i.
           resourceArmMySqlServerCreate_properties hp d = Inr (rg, n, p)
         \<and> CreateOrUpdate client rg n p w = (None, w1)
         \<and> Get client rg n w1 = ((rd, None), w2)
         \<and> server_ID rd = Some i
         \<and> resourceArmMySqlServerRead hp client (d_SetId d i) w2 = Inr (None, d', w')))
   \<and> (\<forall>d' w'. resourceArmMySqlServerUpdate hp client d w = Inr (None, d', w') \<longrightarrow>
        (\<exists>rg n p w1 rd w2 i.
           resourceArmMySqlServerUpdate_properties hp d = Inr (rg, n, p)
         \<and> Update client rg n p w = (None, w1)
         \<and> Get client rg n w1 = ((rd, None), w2)
         \<and> server_ID rd = Some i
         \<and> resourceArmMySqlServerRead hp client (d_SetId d i) w2 = Inr (None, d', w')))"
  using create_after_completion [of hp d _ _ _ client w] update_after_completion [of hp d _ _ _ client w]
    create_success_complete [of hp client d w] update_success_complete [of hp client d w]
  by blast

theorem create_update_follow_up_witness:
  "resourceArmMySqlServerCreate helpers0 (clientReturning serverWithoutID) serverConfig [] =
     Inr (Some (Errorf ''Cannot read MySQL Server %s (resource group %s) ID'' [ArgS ''N'', ArgS ''G'']),
          serverConfig, [''CreateOrUpdate'', ''Get''])
   \<and> resourceArmMySqlServerUpdate helpers0 (clientReturning serverWithoutID) serverState [] =
     Inr (Some (Errorf ''Cannot read MySQL Server %s (resource group %s) ID'' [ArgS ''N'', ArgS ''G'']),
          serverState, [''Update'', ''Get''])
   \<and> resourceArmMySqlServerCreate helpers0 (clientReturning serverBusy) serverConfig [] =
     Inr (Some (SdkError ''InternalServerError''), serverConfig, [''CreateOrUpdate'', ''Get''])
   \<and> resourceArmMySqlServerCreate helpers0 (clientReturning (remoteServer, None)) serverConfig [] =
     resourceArmMySqlServerRead helpers0 (clientReturning (remoteServer, None))
       (d_SetId serverConfig ''/subscriptions/S/resourceGroups/G/providers/P/servers/N'')
       [''CreateOrUpdate'', ''Get'']
   \<and> resourceArmMySqlServerUpdate helpers0 (clientReturning (remoteServer, None)) serverState [] =
     resourceArmMySqlServerRead helpers0 (clientReturning (remoteServer, None))
       (d_SetId serverState ''/subscriptions/S/resourceGroups/G/providers/P/servers/N'')
       [''Update'', ''Get'']
   \<and> (\<exists>rg n p w1 rd w2 i.
         CreateOrUpdate (clientReturning (remoteServer, None)) rg n p [] = (None, w1)
       \<and> Get (clientReturning (remoteServer, None)) rg n w1 = ((rd, None), w2)
       \<and> server_ID rd = Some i)"
proof -
  note cu = createOrUpdate0 [of _ "''G''" "''N''" createPayload "[]", simplified]
  note up = update0 [of _ "''G''" "''N''" updatePayload "[]", simplified]
  have g: "Get (clientReturning r) ''G'' ''N'' [x] = ((fst r, snd r), [x, ''Get''])" for r x
    by (simp add: get0)
  note C = create_update_follow_up [THEN conjunct1, rule_format,
      OF conjI [OF create_properties_serverConfig conjI [OF cu g]]]
  note U = create_update_follow_up [THEN conjunct2, THEN conjunct1, rule_format,
      OF conjI [OF update_properties_serverState conjI [OF up g]]]
  have c1: "resourceArmMySqlServerCreate helpers0 (clientReturning serverWithoutID) serverConfig [] =
     Inr (Some (Errorf ''Cannot read MySQL Server %s (resource group %s) ID'' [ArgS ''N'', ArgS ''G'']),
          serverConfig, [''CreateOrUpdate'', ''Get''])"
    using C [of serverWithoutID] by (simp add: serverWithoutID_def)
  have u1: "resourceArmMySqlServerUpdate helpers0 (clientReturning serverWithoutID) serverState [] =
     Inr (Some (Errorf ''Cannot read MySQL Server %s (resource group %s) ID'' [ArgS ''N'', ArgS ''G'']),
          serverState, [''Update'', ''Get''])"
    using U [of serverWithoutID] by (simp add: serverWithoutID_def)
  have c2: "resourceArmMySqlServerCreate helpers0 (clientReturning serverBusy) serverConfig [] =
     Inr (Some (SdkError ''InternalServerError''), serverConfig, [''CreateOrUpdate'', ''Get''])"
    using C [of serverBusy] by (simp add: serverBusy_def)
  have c3: "resourceArmMySqlServerCreate helpers0 (clientReturning (remoteServer, None)) serverConfig [] =
     resourceArmMySqlServerRead helpers0 (clientReturning (remoteServer, None))
       (d_SetId serverConfig ''/subscriptions/S/resourceGroups/G/providers/P/servers/N'')
       [''CreateOrUpdate'', ''Get'']"
    using C [of "(remoteServer, None)"] by (simp add: remoteServer_def)
  have u3: "resourceArmMySqlServerUpdate helpers0 (clientReturning (remoteServer, None)) serverState [] =
     resourceArmMySqlServerRead helpers0 (clientReturning (remoteServer, None))
       (d_SetId serverState ''/subscriptions/S/resourceGroups/G/providers/P/servers/N'')
       [''Update'', ''Get'']"
    using U [of "(remoteServer, None)"] by (simp add: remoteServer_def)
  have "d_Id (d_SetId serverConfig ''/subscriptions/S/resourceGroups/G/providers/P/servers/N'') =
      ''/subscriptions/S/resourceGroups/G/providers/P/servers/N''"
    by (simp add: d_SetId_def)
  from read_remoteServer [OF this]
  obtain d' w' where ok: "resourceArmMySqlServerCreate helpers0 (clientReturning (remoteServer, None)) serverConfig [] =
     Inr (None, d', w')"
    unfolding c3 by blast
  have c4: "\<exists>rg n p w1 rd w2 i.
         CreateOrUpdate (clientReturning (remoteServer, None)) rg n p [] = (None, w1)
       \<and> Get (clientReturning (remoteServer, None)) rg n w1 = ((rd, None), w2)
       \<and> server_ID rd = Some i"
    using create_update_follow_up [THEN conjunct2, THEN conjunct2, THEN conjunct1, rule_format, OF ok]
    by blast
  from c1 u1 c2 c3 u3 c4 show ?thesis by blast
qed

subsection \<open>The MySQL server resource: the administrator's credentials\<close>

text \<open>
  Claim C8 says that the payload of \<open>create\<close> carries the administrator login and
  password and that the payload of \<open>update\<close> omits them. For the configuration
  \<open>serverConfig\<close>, whose administrator login is \<open>dbadmin\<close> and whose password is
  \<open>hunter2\<close>, the payload of \<open>create\<close> carries neither (both fields are nil), and the
  payload of \<open>update\<close> carries the password.
\<close>

theorem update_drops_password_counterexample:
  "resourceArmMySqlServerCreate_properties helpers0 serverConfig =
     Inr (''G'', ''N'',
       \<lparr> create_Location = Some ''West Europe'',
         create_Sku = Some \<lparr> sku_Name = Some ''MYSQLB50'', sku_Capacity = Some 50, sku_Tier = ''Basic'',
                              sku_Size = Some ''51200'' \<rparr>,
         create_Properties =
           Some \<lparr> create_Version = ''5.7'', create_StorageMB = Some 51200,
                  create_SslEnforcement = ''Enabled'', create_AdministratorLogin = None,
                  create_AdministratorLoginPassword = None \<rparr>,
         create_Tags = Some [] \<rparr>)
   \<and> resourceArmMySqlServerUpdate_properties helpers0 serverState =
     Inr (''G'', ''N'',
       \<lparr> update_Sku = Some \<lparr> sku_Name = Some ''MYSQLB50'', sku_Capacity = Some 50, sku_Tier = ''Basic'',
                              sku_Size = Some ''51200'' \<rparr>,
         update_Properties =
           Some \<lparr> update_SslEnforcement = ''Enabled'', update_StorageMB = Some 51200,
                  update_Version = ''5.7'', update_AdministratorLoginPassword = Some ''hunter2'' \<rparr>,
         update_Tags = Some [] \<rparr>)
   \<and> d_attrs serverConfig ''administrator_login'' = Some (VString ''dbadmin'')
   \<and> d_attrs serverConfig ''administrator_login_password'' = Some (VString ''hunter2'')
   \<and> d_attrs serverState = d_attrs serverConfig"
proof -
  have "d_attrs serverConfig ''administrator_login'' = Some (VString ''dbadmin'')"
    by (simp add: serverConfig_def)
  then show ?thesis
    by (simp add: create_properties_serverConfig update_properties_serverState serverConfig_attrs
        serverState_attrs createPayload_def updatePayload_def serverConfigSku_def)
qed

text \<open>
  Claim C8, amended. Whenever \<open>update\<close> builds its payload, the payload has a
  properties part whose administrator login password is the value of
  \<open>administrator_login_password\<close> in the declarative configuration: the update path does
  not drop the password.
\<close>

theorem update_carries_password:
  assumes "resourceArmMySqlServerUpdate_properties hp d = Inr (rg, n, p)"
  shows "\<exists>pp pw. update_Properties p = Some pp
           \<and> d_GetString d ''administrator_login_password'' = Inr pw
           \<and> update_AdministratorLoginPassword pp = Some pw"
  using assms
  by (auto simp: resourceArmMySqlServerUpdate_properties_def bindP_Inr_iff)

theorem update_carries_password_witness:
  "\<exists>pp. update_Properties updatePayload = Some pp
      \<and> d_GetString serverState ''administrator_login_password'' = Inr ''hunter2''
      \<and> update_AdministratorLoginPassword pp = Some ''hunter2''"
  using update_carries_password [OF update_properties_serverState]
  by (simp add: d_GetString_def serverState_attrs serverConfig_attrs)

subsection \<open>The MySQL server resource: what the schema accepts\<close>

lemma StringInSlice_ignoreCase:
  "snd (StringInSlice lower valid True v k) = [] \<longleftrightarrow>
     (\<exists>s. v = VString s \<and> list_ex (\<lambda>a. lower s = lower a) valid)"
  by (cases v) (auto simp: StringInSlice_def list_ex_iff)

lemma validateIntInSlice_iff:
  "snd (validateIntInSlice valid v k) = [] \<longleftrightarrow> (\<exists>n. v = VInt n \<and> n \<in> set valid)"
  by (cases v) (auto simp: validateIntInSlice_def list_ex_iff)

lemma elem_validators:
  "elemValidatorOf (resourceArmMySqlServer lower l t i) ''sku'' ''name'' =
     Some (StringInSlice lower [''MYSQLB50'', ''MYSQLB100''] True)"
  "elemValidatorOf (resourceArmMySqlServer lower l t i) ''sku'' ''capacity'' =
     Some (validateIntInSlice [50, 100])"
  "elemValidatorOf (resourceArmMySqlServer lower l t i) ''sku'' ''tier'' =
     Some (StringInSlice lower [mysql_Basic] True)"
  by (simp_all add: elemValidatorOf_def resourceArmMySqlServer_def schema_def field_def)

lemma top_validators:
  "validatorOf (resourceArmMySqlServer lower l t i) ''version'' =
     Some (StringInSlice lower [mysql_FiveFullStopSix, mysql_FiveFullStopSeven] True)"
  "validatorOf (resourceArmMySqlServer lower l t i) ''storage_mb'' =
     Some (validateIntInSlice [51200, 102400])"
  "validatorOf (resourceArmMySqlServer lower l t i) ''ssl_enforcement'' =
     Some (StringInSlice lower [mysql_SslEnforcementEnumDisabled, mysql_SslEnforcementEnumEnabled] True)"
  by (simp_all add: validatorOf_def resourceArmMySqlServer_def schema_def field_def)





subsection \<open>The MySQL server resource: the SKU there and back\<close>

lemma capacity_fits:
  "capacity = 50 \<or> capacity = 100 \<Longrightarrow> scast (ucast (capacity :: 64 word) :: 32 word) = capacity"
  by auto

lemma expand_sku:
  assumes "d_attrs d ''sku'' = Some (VList (VMap m # rest))"
    and "map_of m ''name'' = Some (VString name)"
    and "map_of m ''capacity'' = Some (VInt capacity)"
    and "map_of m ''tier'' = Some (VString tier)"
  shows "expandMySQLServerSku d storageMB =
     Inr \<lparr> sku_Name = Some name, sku_Capacity = Some (ucast capacity), sku_Tier = tier,
           sku_Size = Some (Itoa storageMB) \<rparr>"
  using assms
  by (simp add: expandMySQLServerSku_def d_GetSetList_def assertMap_def assertString_def assertInt_def)

lemma flatten_sku:
  "flattenAndSetMySQLServerSku d
     (Some \<lparr> sku_Name = Some name, sku_Capacity = Some c, sku_Tier = tier, sku_Size = sz \<rparr>) =
   Inr (d_Set d ''sku'' (VList [VMap [(''name'', VString name), (''capacity'', VInt (scast c)),
                                      (''tier'', VString tier)]]))"
  by (simp add: flattenAndSetMySQLServerSku_def)

text \<open>
  The capacity goes through an \<open>int32\<close> on the wire. A capacity that does not fit comes
  back as another number: \<open>4294967346\<close> is sent as 50, and flattening stores 50.
\<close>

lemma capacity_truncated:
  "scast (ucast (4294967346 :: 64 word) :: 32 word) = (50 :: 64 word)"
  by simp

text \<open>
  Claim C3. Let the configuration \<open>d\<close> hold one SKU with a name, a capacity and a tier,
  and let the schema accept the three of them and the size \<open>storage_mb\<close>. Then
  \<open>expandMySQLServerSku\<close> returns a wire SKU \<open>w\<close>, and for every state \<open>d0\<close>,
  whatever it holds, \<open>flattenAndSetMySQLServerSku\<close> applied to \<open>d0\<close> and \<open>w\<close>
  returns a state whose \<open>sku\<close> holds the name, the capacity and the tier of \<open>d\<close>;
  expanding that state gives \<open>w\<close> again; and flattening has changed no other attribute
  of \<open>d0\<close> and not its identifier.
\<close>

theorem sku_round_trip:
  fixes lower :: "string \<Rightarrow> string" and l t :: "'f Schema" and i :: 'f
  defines "S \<equiv> resourceArmMySqlServer lower l t i"
  assumes sku: "d_attrs d ''sku'' = Some (VList [VMap m])"
    and name: "map_of m ''name'' = Some (VString name)"
    and capacity: "map_of m ''capacity'' = Some (VInt capacity)"
    and tier: "map_of m ''tier'' = Some (VString tier)"
    and ok_name: "accepts (elemValidatorOf S ''sku'' ''name'') ''name'' (VString name)"
    and ok_capacity: "accepts (elemValidatorOf S ''sku'' ''capacity'') ''capacity'' (VInt capacity)"
    and ok_tier: "accepts (elemValidatorOf S ''sku'' ''tier'') ''tier'' (VString tier)"
    and ok_storage: "accepts (validatorOf S ''storage_mb'') ''storage_mb'' (VInt storageMB)"
  shows "\<exists>w. expandMySQLServerSku d storageMB = Inr w
           \<and> (\<forall>d0. \<exists>d'. flattenAndSetMySQLServerSku d0 (Some w) = Inr d'
                 \<and> d_attrs d' ''sku'' =
                     Some (VList [VMap [(''name'', VString name), (''capacity'', VInt capacity),
                                        (''tier'', VString tier)]])
                 \<and> expandMySQLServerSku d' storageMB = Inr w
                 \<and> d_Id d' = d_Id d0
                 \<and> (\<forall>k. k = ''sku'' \<or> d_attrs d' k = d_attrs d0 k))"
proof -
  have "capacity = 50 \<or> capacity = 100"
    using ok_capacity unfolding S_def
    by (simp add: accepts_def elem_validators validateIntInSlice_iff)
  then have fits: "scast (ucast capacity :: 32 word) = capacity"
    by (rule capacity_fits)
  let ?w = "\<lparr> sku_Name = Some name, sku_Capacity = Some (ucast capacity :: 32 word), sku_Tier = tier,
           sku_Size = Some (Itoa storageMB) \<rparr>"
  let ?m' = "[(''name'', VString name), (''capacity'', VInt capacity), (''tier'', VString tier)]"
  have e: "expandMySQLServerSku d storageMB = Inr ?w"
    using sku name capacity tier by (rule expand_sku)
  have "\<exists>d'. flattenAndSetMySQLServerSku d0 (Some ?w) = Inr d'
                 \<and> d_attrs d' ''sku'' = Some (VList [VMap ?m'])
                 \<and> expandMySQLServerSku d' storageMB = Inr ?w
                 \<and> d_Id d' = d_Id d0
                 \<and> (\<forall>k. k = ''sku'' \<or> d_attrs d' k = d_attrs d0 k)" for d0
  proof -
    let ?d' = "d_Set d0 ''sku'' (VList [VMap ?m'])"
    have f: "flattenAndSetMySQLServerSku d0 (Some ?w) = Inr ?d'"
      by (simp add: flatten_sku fits)
    have a: "d_attrs ?d' ''sku'' = Some (VList [VMap ?m'])"
      by (simp add: d_Set_def)
    have e': "expandMySQLServerSku ?d' storageMB = Inr ?w"
      by (rule expand_sku [OF a]) simp_all
    have "d_Id ?d' = d_Id d0" "\<forall>k. k = ''sku'' \<or> d_attrs ?d' k = d_attrs d0 k"
      by (simp_all add: d_Set_def)
    with f a e' show ?thesis by blast
  qed
  with e show ?thesis by blast
qed

theorem sku_round_trip_witness:
  "\<exists>w d'. expandMySQLServerSku serverConfig 51200 = Inr w
      \<and> flattenAndSetMySQLServerSku emptyState (Some w) = Inr d'
      \<and> d_attrs emptyState ''sku'' = None
      \<and> d_attrs d' ''sku'' =
          Some (VList [VMap [(''name'', VString ''MYSQLB50''), (''capacity'', VInt 50),
                             (''tier'', VString ''Basic'')]])
      \<and> expandMySQLServerSku d' 51200 = Inr w
      \<and> d_Id d' = d_Id emptyState"
proof -
  let ?m = "[(''name'', VString ''MYSQLB50''), (''capacity'', VInt 50), (''tier'', VString ''Basic'')]"
  let ?S = "resourceArmMySqlServer asciiToLower schema schema ()"
  have m: "map_of ?m ''name'' = Some (VString ''MYSQLB50'')" "map_of ?m ''capacity'' = Some (VInt 50)"
    "map_of ?m ''tier'' = Some (VString ''Basic'')"
    by simp_all
  have ok: "accepts (elemValidatorOf ?S ''sku'' ''name'') ''name'' (VString ''MYSQLB50'')"
    "accepts (elemValidatorOf ?S ''sku'' ''capacity'') ''capacity'' (VInt 50)"
    "accepts (elemValidatorOf ?S ''sku'' ''tier'') ''tier'' (VString ''Basic'')"
    "accepts (validatorOf ?S ''storage_mb'') ''storage_mb'' (VInt 51200)"
    by (simp_all add: accepts_def elem_validators top_validators StringInSlice_ignoreCase
        validateIntInSlice_iff mysql_Basic_def)
  have e: "d_attrs emptyState ''sku'' = None"
    by (simp add: emptyState_def)
  from sku_round_trip [OF serverConfig_attrs(9) m ok] e
  show ?thesis by blast
qed

subsection \<open>The MySQL server resource: create and the validators\<close>

lemma Itoa_1: "Itoa 1 = ''1''"
  by (simp add: Itoa_def digitsOf.simps [of "Suc 0"])





end
